theory Spec2Isabelle
  imports Main "HOL-Library.Word"
begin

section \<open>Data model of \<open>subnet/kube/kube.go\<close>\<close>

subsection \<open>Constants\<close>

definition subnetKubeManagedAnnotation :: string where
  "subnetKubeManagedAnnotation = ''flannel.alpha.coreos.com/kube-subnet-manager''"

definition backendDataAnnotation :: string where
  "backendDataAnnotation = ''flannel.alpha.coreos.com/backend-data''"

definition backendTypeAnnotation :: string where
  "backendTypeAnnotation = ''flannel.alpha.coreos.com/backend-type''"

definition backendPublicIPAnnotation :: string where
  "backendPublicIPAnnotation = ''flannel.alpha.coreos.com/public-ip''"

definition backendPublicIPOverwriteAnnotation :: string where
  "backendPublicIPOverwriteAnnotation = ''flannel.alpha.coreos.com/public-ip-overwrite''"

text \<open>Capacity of the channel made by \<open>make(chan subnet.Event, 5000)\<close>.\<close>

definition events_capacity :: nat where
  "events_capacity = 5000"

text \<open>
  Times are nanosecond counts from the zero \<open>time.Time\<close>; a \<open>time.Duration\<close> is a
  nanosecond count, so \<open>time.Hour\<close> is \<open>3600 * 10^9\<close>.
\<close>

type_synonym Time = int

definition Hour :: int where
  "Hour = 3600000000000"

subsection \<open>Errors and outcomes\<close>

datatype error =
    ErrUnimplemented
  | ErrPodCidrNotAssigned string
      \<comment> \<open>\<open>fmt.Errorf("node %q pod cidr not assigned", ksm.nodeName)\<close>\<close>
  | ErrCreatePatch string error
      \<comment> \<open>\<open>fmt.Errorf("failed to create patch for node %q: %v", ksm.nodeName, err)\<close>\<close>
  | ErrOther string
      \<comment> \<open>an error value handed back by a collaborator and passed on as it is\<close>

text \<open>
  How a call ends: it returns, it stays blocked on a channel operation, or the goroutine
  panics (a failed type assertion, an assignment to an entry of a nil map, a panic inside a
  helper).
\<close>

datatype 'a outcome = Returns 'a | Blocks | Panics

subsection \<open>Leases and events (package \<open>subnet\<close>, package \<open>ip\<close>)\<close>

text \<open>
  Modelled from the spec: the declarations of \<open>ip.IP4\<close>, \<open>ip.IP4Net\<close>,
  \<open>subnet.LeaseAttrs\<close>, \<open>subnet.Lease\<close>, \<open>subnet.Event\<close> and
  \<open>subnet.LeaseWatchResult\<close> are not in the source file; the fields are those of the
  spec's data model. A \<open>json.RawMessage\<close> is a byte slice, \<open>None\<close> being the nil slice.
\<close>

type_synonym IP4 = "32 word"

record IP4Net =
  IP :: IP4
  PrefixLen :: nat

type_synonym RawMessage = "string option"

record LeaseAttrs =
  PublicIP :: IP4
  BackendType :: string
  BackendData :: RawMessage
  PublicIPOverwrite :: "IP4 option"

record Lease =
  Subnet :: IP4Net
  Attrs :: LeaseAttrs
  Expiration :: Time

datatype EventType = EventAdded | EventRemoved

record Event =
  Type :: EventType
  Lease :: Lease

record LeaseWatchResult =
  Events :: "Event list"

subsection \<open>Directory entries (\<open>v1.Node\<close>)\<close>

text \<open>
  Of a \<open>v1.Node\<close> the code reads \<open>ObjectMeta.Name\<close>, \<open>ObjectMeta.Annotations\<close> and
  \<open>Spec.PodCIDR\<close>; every other field is carried in \<open>Rest\<close>. A Go map may be nil:
  \<open>None\<close> is the nil map, \<open>Some m\<close> an allocated one.
\<close>

record 'r Node =
  Name :: string
  PodCIDR :: string
  Annotations :: "(string \<rightharpoonup> string) option"
  Rest :: 'r

text \<open>\<open>s, ok := m[k]\<close>: the comma-ok read; a nil map has no key.\<close>

definition lookup_ok :: "(string \<rightharpoonup> string) option \<Rightarrow> string \<Rightarrow> string option" where
  "lookup_ok a k = (case a of None \<Rightarrow> None | Some m \<Rightarrow> m k)"

text \<open>\<open>m[k]\<close>: the plain read gives the empty string for a missing key.\<close>

definition index :: "(string \<rightharpoonup> string) option \<Rightarrow> string \<Rightarrow> string" where
  "index a k = (case lookup_ok a k of None \<Rightarrow> [] | Some s \<Rightarrow> s)"

text \<open>
  The callbacks of the informer take \<open>interface{}\<close> and assert \<open>*v1.Node\<close>; an object of
  another dynamic type makes the assertion panic.
\<close>

datatype 'r obj = NodeObj "'r Node" | OtherObj

subsection \<open>Collaborators outside the source file\<close>

text \<open>
  The helpers of package \<open>ip\<close>, \<open>net.ParseCIDR\<close> and \<open>json.RawMessage.MarshalJSON\<close> are
  parameters. \<open>FromIPNet\<close> answers \<open>None\<close> where the helper panics.
\<close>

record 'net lib =
  ParseIP4 :: "string \<Rightarrow> error + IP4"
  IP4_String :: "IP4 \<Rightarrow> string"
  ParseCIDR :: "string \<Rightarrow> error + 'net"
  FromIPNet :: "'net \<Rightarrow> IP4Net option"
  MarshalJSON :: "RawMessage \<Rightarrow> error + string"

text \<open>
  A strategic merge patch of a node, as far as the modelled fields go: for each field the
  new value when the patch changes it. In \<open>p_Annotations\<close>, \<open>Some (Some v)\<close> sets a key,
  \<open>Some None\<close> deletes it (JSON null), \<open>None\<close> leaves it alone.
\<close>

record 'r NodePatch =
  p_Name :: "string option"
  p_PodCIDR :: "string option"
  p_Annotations :: "string \<rightharpoonup> string option"
  p_Rest :: "'r option"

datatype PatchType = JSONPatchType | MergePatchType | StrategicMergePatchType

text \<open>One call of \<open>client.CoreV1().Nodes().Patch(name, pt, data, subresources...)\<close>.\<close>

record 'r patch_call =
  pc_name :: string
  pc_type :: PatchType
  pc_data :: "'r NodePatch"
  pc_subresources :: "string list"

text \<open>
  The manager. \<open>client\<close> is the directory service's answer to a patch call (\<open>None\<close>: no
  error), \<open>nodeStore\<close> the lister's \<open>Get\<close>, \<open>events\<close> the content of the buffered
  channel, oldest first.
\<close>

record 'r kubeSubnetManager =
  client :: "'r patch_call \<Rightarrow> error option"
  nodeName :: string
  nodeStore :: "string \<Rightarrow> error + 'r Node"
  events :: "Event list"

section \<open>Event translator\<close>

text \<open>\<open>ch <- e\<close> on the buffered channel: appends when there is room, blocks otherwise.\<close>

definition chan_send ::
  "'r kubeSubnetManager \<Rightarrow> Event \<Rightarrow> 'r kubeSubnetManager outcome" where
  "chan_send ksm e =
     (if length (events ksm) < events_capacity
      then Returns (ksm\<lparr>events := events ksm @ [e]\<rparr>)
      else Blocks)"

text \<open>
  \<open>nodeToLease\<close>: the named result \<open>l\<close> starts as the zero lease; \<open>Inl\<close> is the returned
  error, \<open>Panics\<close> a panic inside \<open>ip.FromIPNet\<close>.
\<close>

definition nodeToLease :: "'net lib \<Rightarrow> 'r Node \<Rightarrow> (error + Lease) outcome" where
  "nodeToLease lib n =
     (case ParseIP4 lib (index (Annotations n) backendPublicIPAnnotation) of
        Inl err \<Rightarrow> Returns (Inl err)
      | Inr pip \<Rightarrow>
          (case ParseCIDR lib (PodCIDR n) of
             Inl err \<Rightarrow> Returns (Inl err)
           | Inr cidr \<Rightarrow>
               (case FromIPNet lib cidr of
                  None \<Rightarrow> Panics
                | Some sn \<Rightarrow>
                    Returns (Inr \<lparr>Subnet = sn,
                      Attrs = \<lparr>PublicIP = pip,
                        BackendType = index (Annotations n) backendTypeAnnotation,
                        BackendData = Some (index (Annotations n) backendDataAnnotation),
                        PublicIPOverwrite = None\<rparr>,
                      Expiration = 0\<rparr>))))"

definition handleAddLeaseEvent ::
  "'net lib \<Rightarrow> EventType \<Rightarrow> 'r obj \<Rightarrow> 'r kubeSubnetManager \<Rightarrow> 'r kubeSubnetManager outcome" where
  "handleAddLeaseEvent lib et obj ksm =
     (case obj of
        OtherObj \<Rightarrow> Panics
      | NodeObj n \<Rightarrow>
          (if lookup_ok (Annotations n) subnetKubeManagedAnnotation \<noteq> Some ''true''
           then Returns ksm
           else (case nodeToLease lib n of
                   Panics \<Rightarrow> Panics
                 | Blocks \<Rightarrow> Blocks
                 | Returns (Inl err) \<Rightarrow> Returns ksm
                 | Returns (Inr l) \<Rightarrow> chan_send ksm \<lparr>Type = et, Lease = l\<rparr>)))"

definition handleUpdateLeaseEvent ::
  "'net lib \<Rightarrow> 'r obj \<Rightarrow> 'r obj \<Rightarrow> 'r kubeSubnetManager \<Rightarrow> 'r kubeSubnetManager outcome" where
  "handleUpdateLeaseEvent lib oldObj newObj ksm =
     (case oldObj of
        OtherObj \<Rightarrow> Panics
      | NodeObj old \<Rightarrow>
          (case newObj of
             OtherObj \<Rightarrow> Panics
           | NodeObj n \<Rightarrow>
               (if lookup_ok (Annotations n) subnetKubeManagedAnnotation \<noteq> Some ''true''
                then Returns ksm
                else if index (Annotations old) backendDataAnnotation
                          = index (Annotations n) backendDataAnnotation \<and>
                        index (Annotations old) backendTypeAnnotation
                          = index (Annotations n) backendTypeAnnotation \<and>
                        index (Annotations old) backendPublicIPAnnotation
                          = index (Annotations n) backendPublicIPAnnotation
                then Returns ksm
                else (case nodeToLease lib n of
                        Panics \<Rightarrow> Panics
                      | Blocks \<Rightarrow> Blocks
                      | Returns (Inl err) \<Rightarrow> Returns ksm
                      | Returns (Inr l) \<Rightarrow> chan_send ksm \<lparr>Type = EventAdded, Lease = l\<rparr>))))"

section \<open>Lease acquirer\<close>

text \<open>
  \<open>api.Scheme.DeepCopy\<close> and \<open>json.Marshal\<close> of a node: values are immutable here, so
  the copy is the node and the JSON document is represented by the node it encodes; the
  error results of the two library calls stay in the types.
\<close>

definition Scheme_DeepCopy :: "'r Node \<Rightarrow> error + 'r Node" where
  "Scheme_DeepCopy n = Inr n"

definition json_Marshal :: "'r Node \<Rightarrow> error + 'r Node" where
  "json_Marshal n = Inr n"

text \<open>
  The annotations as they appear in the JSON document: a nil map and an empty map are both
  left out of it.
\<close>

definition annots :: "(string \<rightharpoonup> string) option \<Rightarrow> (string \<rightharpoonup> string)" where
  "annots a = (case a of None \<Rightarrow> Map.empty | Some m \<Rightarrow> m)"

text \<open>
  \<open>strategicpatch.CreateTwoWayMergePatch(original, modified, v1.Node{})\<close> on the modelled
  fields: the patch names exactly the fields and annotation keys whose value in
  \<open>modified\<close> is not the one in \<open>original\<close>, with the value of \<open>modified\<close> (null for a
  key that \<open>modified\<close> lacks).
\<close>

definition CreateTwoWayMergePatch :: "'r Node \<Rightarrow> 'r Node \<Rightarrow> error + 'r NodePatch" where
  "CreateTwoWayMergePatch original modified =
     Inr \<lparr>p_Name = (if Name modified = Name original then None else Some (Name modified)),
          p_PodCIDR =
            (if PodCIDR modified = PodCIDR original then None else Some (PodCIDR modified)),
          p_Annotations =
            (\<lambda>k. if annots (Annotations modified) k = annots (Annotations original) k
                 then None else Some (annots (Annotations modified) k)),
          p_Rest = (if Rest modified = Rest original then None else Some (Rest modified))\<rparr>"

text \<open>
  What the directory service stores when it applies a patch to a node: the patched fields
  take the patch's values, the others stay.
\<close>

definition apply_patch :: "'r NodePatch \<Rightarrow> 'r Node \<Rightarrow> 'r Node" where
  "apply_patch p n =
     \<lparr>Name = (case p_Name p of None \<Rightarrow> Name n | Some x \<Rightarrow> x),
      PodCIDR = (case p_PodCIDR p of None \<Rightarrow> PodCIDR n | Some x \<Rightarrow> x),
      Annotations =
        Some (\<lambda>k. case p_Annotations p k of None \<Rightarrow> annots (Annotations n) k | Some v \<Rightarrow> v),
      Rest = (case p_Rest p of None \<Rightarrow> Rest n | Some x \<Rightarrow> x)\<rparr>"

text \<open>The condition of the \<open>if\<close> that guards the write (lines 236 to 240).\<close>

definition annotations_differ :: "'net lib \<Rightarrow> 'r Node \<Rightarrow> LeaseAttrs \<Rightarrow> string \<Rightarrow> bool" where
  "annotations_differ lib n attrs bd \<longleftrightarrow>
     index (Annotations n) backendDataAnnotation \<noteq> bd \<or>
     index (Annotations n) backendTypeAnnotation \<noteq> BackendType attrs \<or>
     index (Annotations n) backendPublicIPAnnotation \<noteq> IP4_String lib (PublicIP attrs) \<or>
     index (Annotations n) subnetKubeManagedAnnotation \<noteq> ''true'' \<or>
     (index (Annotations n) backendPublicIPOverwriteAnnotation \<noteq> [] \<and>
      index (Annotations n) backendPublicIPOverwriteAnnotation
        \<noteq> IP4_String lib (PublicIP attrs))"

text \<open>
  The assignments to \<open>n.Annotations\<close> (lines 241 to 253), on an allocated map \<open>m\<close>; each
  read sees the assignments before it.
\<close>

definition set_annotations ::
  "'net lib \<Rightarrow> LeaseAttrs \<Rightarrow> string \<Rightarrow> (string \<rightharpoonup> string) \<Rightarrow> (string \<rightharpoonup> string)" where
  "set_annotations lib attrs bd m =
     (let m1 = m(backendTypeAnnotation \<mapsto> BackendType attrs);
          m2 = m1(backendDataAnnotation \<mapsto> bd);
          m3 = (if index (Some m2) backendPublicIPOverwriteAnnotation \<noteq> []
                then (if index (Some m2) backendPublicIPAnnotation
                           \<noteq> index (Some m2) backendPublicIPOverwriteAnnotation
                      then m2(backendPublicIPAnnotation \<mapsto>
                                index (Some m2) backendPublicIPOverwriteAnnotation)
                      else m2)
                else m2(backendPublicIPAnnotation \<mapsto> IP4_String lib (PublicIP attrs)))
      in m3(subnetKubeManagedAnnotation \<mapsto> ''true''))"

text \<open>
  Lines 255 to 273: the two documents, the patch between them and the call of the directory
  service. The result is the list of patch calls issued and the error, if any.
\<close>

definition patch_node ::
  "'r kubeSubnetManager \<Rightarrow> 'r Node \<Rightarrow> 'r Node \<Rightarrow> 'r patch_call list \<times> error option" where
  "patch_node ksm cachedNode n =
     (case json_Marshal cachedNode of
        Inl err \<Rightarrow> ([], Some err)
      | Inr oldData \<Rightarrow>
          (case json_Marshal n of
             Inl err \<Rightarrow> ([], Some err)
           | Inr newData \<Rightarrow>
               (case CreateTwoWayMergePatch oldData newData of
                  Inl err \<Rightarrow> ([], Some (ErrCreatePatch (nodeName ksm) err))
                | Inr patchBytes \<Rightarrow>
                    (let call = \<lparr>pc_name = nodeName ksm, pc_type = StrategicMergePatchType,
                                 pc_data = patchBytes, pc_subresources = [''status'']\<rparr>
                     in ([call], client ksm call)))))"

text \<open>Lines 275 to 279; \<open>now\<close> is what \<open>time.Now()\<close> answers there.\<close>

definition new_lease ::
  "'net lib \<Rightarrow> 'net \<Rightarrow> LeaseAttrs \<Rightarrow> Time \<Rightarrow> (error + Lease) outcome" where
  "new_lease lib cidr attrs now =
     (case FromIPNet lib cidr of
        None \<Rightarrow> Panics
      | Some sn \<Rightarrow> Returns (Inr \<lparr>Subnet = sn, Attrs = attrs, Expiration = now + 24 * Hour\<rparr>))"

text \<open>
  \<open>AcquireLease\<close> answers the patch calls it issued, in order, and how it ended. The first
  assignment to an entry of a nil \<open>n.Annotations\<close> panics.
\<close>

definition AcquireLease ::
  "'net lib \<Rightarrow> 'r kubeSubnetManager \<Rightarrow> Time \<Rightarrow> LeaseAttrs
     \<Rightarrow> 'r patch_call list \<times> (error + Lease) outcome" where
  "AcquireLease lib ksm now attrs =
     (case nodeStore ksm (nodeName ksm) of
        Inl err \<Rightarrow> ([], Returns (Inl err))
      | Inr cachedNode \<Rightarrow>
     (case Scheme_DeepCopy cachedNode of
        Inl err \<Rightarrow> ([], Returns (Inl err))
      | Inr n \<Rightarrow>
     if PodCIDR n = [] then ([], Returns (Inl (ErrPodCidrNotAssigned (nodeName ksm))))
     else
     (case MarshalJSON lib (BackendData attrs) of
        Inl err \<Rightarrow> ([], Returns (Inl err))
      | Inr bd \<Rightarrow>
     (case ParseCIDR lib (PodCIDR n) of
        Inl err \<Rightarrow> ([], Returns (Inl err))
      | Inr cidr \<Rightarrow>
     if annotations_differ lib n attrs bd then
       (case Annotations n of
          None \<Rightarrow> ([], Panics)
        | Some m \<Rightarrow>
            (case patch_node ksm cachedNode
                    (n\<lparr>Annotations := Some (set_annotations lib attrs bd m)\<rparr>) of
               (calls, Some err) \<Rightarrow> (calls, Returns (Inl err))
             | (calls, None) \<Rightarrow> (calls, new_lease lib cidr attrs now)))
     else ([], new_lease lib cidr attrs now)))))"

section \<open>Watch pull API\<close>

text \<open>
  The \<open>select\<close> of \<open>WatchLeases\<close> has two cases. When both can proceed the runtime picks
  one of them by a pseudo-random choice; \<open>pick\<close> is that choice.
\<close>

datatype select_case = CaseEvent | CaseDone

text \<open>
  \<open>done\<close> says whether \<open>ctx.Done()\<close> is closed. The result is the pair the function
  returns and the manager with the channel as the receive left it.
\<close>

definition WatchLeases ::
  "'r kubeSubnetManager \<Rightarrow> bool \<Rightarrow> select_case
     \<Rightarrow> ((LeaseWatchResult \<times> error option) \<times> 'r kubeSubnetManager) outcome" where
  "WatchLeases ksm done pick =
     (case events ksm of
        [] \<Rightarrow>
          (if done then Returns ((\<lparr>Events = []\<rparr>, None), ksm) else Blocks)
      | event # rest \<Rightarrow>
          (if done \<and> pick = CaseDone then Returns ((\<lparr>Events = []\<rparr>, None), ksm)
           else Returns ((\<lparr>Events = [event]\<rparr>, None), ksm\<lparr>events := rest\<rparr>)))"

section \<open>A concrete instance of the collaborators\<close>

text \<open>
  Modelled from the spec: package \<open>ip\<close> is not in the source file. This instance reads and
  prints an IPv4 address in dotted decimal ("PublicIP must parse as a valid dotted IPv4")
  and an address block as \<open>a.b.c.d/len\<close>; it is the instance at which the general
  theorems, stated for every \<open>lib\<close>, are run on concrete entries.
\<close>

definition digit_val :: "char \<Rightarrow> nat option" where
  "digit_val c =
     (let v = (of_char c :: nat) in if 48 \<le> v \<and> v \<le> 57 then Some (v - 48) else None)"

fun dtoi_from :: "nat \<Rightarrow> string \<Rightarrow> nat option" where
  "dtoi_from acc [] = Some acc"
| "dtoi_from acc (c # cs) =
     (case digit_val c of None \<Rightarrow> None | Some d \<Rightarrow> dtoi_from (10 * acc + d) cs)"

definition dtoi :: "string \<Rightarrow> nat option" where
  "dtoi s = (if s = [] then None else dtoi_from 0 s)"

fun split_on :: "char \<Rightarrow> string \<Rightarrow> string list" where
  "split_on sep [] = [[]]"
| "split_on sep (c # cs) =
     (if c = sep then [] # split_on sep cs
      else (case split_on sep cs of [] \<Rightarrow> [[c]] | p # ps \<Rightarrow> (c # p) # ps))"

definition digit_char :: "nat \<Rightarrow> char" where
  "digit_char d = char_of (48 + d)"

definition show_octet :: "nat \<Rightarrow> string" where
  "show_octet n =
     (if n < 10 then [digit_char n]
      else if n < 100 then [digit_char (n div 10), digit_char (n mod 10)]
      else [digit_char (n div 100), digit_char (n div 10 mod 10), digit_char (n mod 10)])"

definition octets_string :: "nat \<Rightarrow> string" where
  "octets_string n =
     show_octet (n div 16777216) @ ''.'' @ show_octet (n div 65536 mod 256) @ ''.'' @
     show_octet (n div 256 mod 256) @ ''.'' @ show_octet (n mod 256)"

definition IP4_dotted :: "IP4 \<Rightarrow> string" where
  "IP4_dotted a = octets_string (unat a)"

definition parse_dotted :: "string \<Rightarrow> nat option" where
  "parse_dotted s =
     (case map dtoi (split_on (CHR ''.'') s) of
        [Some a, Some b, Some c, Some d] \<Rightarrow>
          (if a \<le> 255 \<and> b \<le> 255 \<and> c \<le> 255 \<and> d \<le> 255
           then Some (a * 16777216 + b * 65536 + c * 256 + d)
           else None)
      | _ \<Rightarrow> None)"

definition ParseIP4_dotted :: "string \<Rightarrow> error + IP4" where
  "ParseIP4_dotted s =
     (case parse_dotted s of
        None \<Rightarrow> Inl (ErrOther ''invalid IP address'')
      | Some n \<Rightarrow> Inr (of_nat n))"

text \<open>The network of \<open>a.b.c.d/len\<close>, as a number: the address with its host bits cleared.\<close>

definition parse_cidr :: "string \<Rightarrow> (nat \<times> nat) option" where
  "parse_cidr s =
     (case split_on (CHR ''/'') s of
        [a, l] \<Rightarrow>
          (case (parse_dotted a, dtoi l) of
             (Some n, Some len) \<Rightarrow>
               (if len \<le> 32 then Some (n - n mod 2 ^ (32 - len), len) else None)
           | _ \<Rightarrow> None)
      | _ \<Rightarrow> None)"

definition ParseCIDR_dotted :: "string \<Rightarrow> error + IP4Net" where
  "ParseCIDR_dotted s =
     (case parse_cidr s of
        None \<Rightarrow> Inl (ErrOther ''invalid CIDR address'')
      | Some (n, len) \<Rightarrow> Inr \<lparr>IP = of_nat n, PrefixLen = len\<rparr>)"

definition MarshalJSON_raw :: "RawMessage \<Rightarrow> error + string" where
  "MarshalJSON_raw m = (case m of None \<Rightarrow> Inr ''null'' | Some b \<Rightarrow> Inr b)"

definition dotted_lib :: "IP4Net lib" where
  "dotted_lib =
     \<lparr>ParseIP4 = ParseIP4_dotted, IP4_String = IP4_dotted, ParseCIDR = ParseCIDR_dotted,
      FromIPNet = Some, MarshalJSON = MarshalJSON_raw\<rparr>"

text \<open>
  Entries named \<open>node-1\<close>. \<open>annots1\<close> is the metadata of the spec's end-to-end
  scenario: marker "true", backend type vxlan, backend data \<open>{"VNI":1}\<close>, public IP
  10.0.0.5; the assigned block is 10.1.0.0/24.
\<close>

definition node_with :: "string \<Rightarrow> (string \<rightharpoonup> string) option \<Rightarrow> unit Node" where
  "node_with cidr a = \<lparr>Name = ''node-1'', PodCIDR = cidr, Annotations = a, Rest = ()\<rparr>"

definition annots1 :: "string \<rightharpoonup> string" where
  "annots1 = [subnetKubeManagedAnnotation \<mapsto> ''true'',
              backendTypeAnnotation \<mapsto> ''vxlan'',
              backendDataAnnotation \<mapsto> ''{\"VNI\":1}'',
              backendPublicIPAnnotation \<mapsto> ''10.0.0.5'']"

definition node1 :: "unit Node" where
  "node1 = node_with ''10.1.0.0/24'' (Some annots1)"

text \<open>The marker is present but is not the string "true".\<close>

definition node1_unmanaged :: "unit Node" where
  "node1_unmanaged =
     node_with ''10.1.0.0/24'' (Some (annots1(subnetKubeManagedAnnotation \<mapsto> ''True'')))"

text \<open>Only a key that is none of the lease's changed.\<close>

definition node1_relabelled :: "unit Node" where
  "node1_relabelled =
     node_with ''10.1.0.0/24'' (Some (annots1(''node.alpha.kubernetes.io/ttl'' \<mapsto> ''0'')))"

definition node1_vni2 :: "unit Node" where
  "node1_vni2 =
     node_with ''10.1.0.0/24'' (Some (annots1(backendDataAnnotation \<mapsto> ''{\"VNI\":2}'')))"

text \<open>The public IP changed to a string that is no IPv4 address.\<close>

definition node1_bad_ip :: "unit Node" where
  "node1_bad_ip =
     node_with ''10.1.0.0/24'' (Some (annots1(backendPublicIPAnnotation \<mapsto> ''not-an-ip'')))"

text \<open>No address block assigned yet.\<close>

definition node1_unassigned :: "unit Node" where
  "node1_unassigned = node_with [] (Some annots1)"

text \<open>No lease metadata yet.\<close>

definition node1_bare :: "unit Node" where
  "node1_bare =
     node_with ''10.1.0.0/24'' (Some [''node.alpha.kubernetes.io/ttl'' \<mapsto> ''0''])"

text \<open>An operator has set the override annotation to 1.2.3.4.\<close>

definition node1_overwrite :: "unit Node" where
  "node1_overwrite =
     node_with ''10.1.0.0/24''
       (Some (annots1(backendPublicIPOverwriteAnnotation \<mapsto> ''1.2.3.4'')))"

text \<open>The override has been applied already: the public IP is the override's 1.2.3.4.\<close>

definition annots_settled :: "string \<rightharpoonup> string" where
  "annots_settled = annots1(backendPublicIPOverwriteAnnotation \<mapsto> ''1.2.3.4'',
                            backendPublicIPAnnotation \<mapsto> ''1.2.3.4'')"

definition node1_settled :: "unit Node" where
  "node1_settled = node_with ''10.1.0.0/24'' (Some annots_settled)"

text \<open>
  A manager for \<open>node-1\<close> whose cache holds the given entry and whose directory service
  accepts every patch; the attributes a caller asks for; the leases and an event that the
  entries above translate to.
\<close>

definition ksm_of :: "unit Node \<Rightarrow> Event list \<Rightarrow> unit kubeSubnetManager" where
  "ksm_of n q =
     \<lparr>client = (\<lambda>call. None), nodeName = ''node-1'',
      nodeStore = (\<lambda>name. if name = ''node-1'' then Inr n else Inl (ErrOther ''not found'')),
      events = q\<rparr>"

definition attrs1 :: LeaseAttrs where
  "attrs1 = \<lparr>PublicIP = 0x0A000005, BackendType = ''vxlan'',
             BackendData = Some ''{\"VNI\":1}'', PublicIPOverwrite = None\<rparr>"

definition subnet1 :: IP4Net where
  "subnet1 = \<lparr>IP = 0x0A010000, PrefixLen = 24\<rparr>"

definition lease1 :: Lease where
  "lease1 = \<lparr>Subnet = subnet1, Attrs = attrs1, Expiration = 0\<rparr>"

definition lease2 :: Lease where
  "lease2 = \<lparr>Subnet = subnet1, Attrs = attrs1\<lparr>BackendData := Some ''{\"VNI\":2}''\<rparr>,
             Expiration = 0\<rparr>"

definition event1 :: Event where
  "event1 = \<lparr>Type = EventAdded, Lease = lease1\<rparr>"

section \<open>Notions used in the statements\<close>

text \<open>The patch call that \<open>AcquireLease\<close> issues for a patch \<open>p\<close>.\<close>

definition issued_call :: "'r kubeSubnetManager \<Rightarrow> 'r NodePatch \<Rightarrow> 'r patch_call" where
  "issued_call ksm p =
     \<lparr>pc_name = nodeName ksm, pc_type = StrategicMergePatchType, pc_data = p,
      pc_subresources = [''status'']\<rparr>"

text \<open>
  The cached entry once the directory service has applied the given patch calls to it and
  the cache has caught up.
\<close>

definition cache_after :: "'r patch_call list \<Rightarrow> 'r Node \<Rightarrow> 'r Node" where
  "cache_after calls n = fold (\<lambda>c. apply_patch (pc_data c)) calls n"

section \<open>Properties of the lease acquirer\<close>


lemma annotation_keys_distinct:
  "subnetKubeManagedAnnotation \<noteq> backendDataAnnotation"
  "subnetKubeManagedAnnotation \<noteq> backendTypeAnnotation"
  "subnetKubeManagedAnnotation \<noteq> backendPublicIPAnnotation"
  "subnetKubeManagedAnnotation \<noteq> backendPublicIPOverwriteAnnotation"
  "backendDataAnnotation \<noteq> backendTypeAnnotation"
  "backendDataAnnotation \<noteq> backendPublicIPAnnotation"
  "backendDataAnnotation \<noteq> backendPublicIPOverwriteAnnotation"
  "backendTypeAnnotation \<noteq> backendPublicIPAnnotation"
  "backendTypeAnnotation \<noteq> backendPublicIPOverwriteAnnotation"
  "backendPublicIPAnnotation \<noteq> backendPublicIPOverwriteAnnotation"
  by (simp_all add: subnetKubeManagedAnnotation_def backendDataAnnotation_def
      backendTypeAnnotation_def backendPublicIPAnnotation_def
      backendPublicIPOverwriteAnnotation_def)

lemmas keys_neq = annotation_keys_distinct annotation_keys_distinct[symmetric]

lemma index_Some_upd: "index (Some (m(k \<mapsto> v))) k' = (if k' = k then v else index (Some m) k')"
  by (simp add: index_def lookup_ok_def)

lemma set_annotations_apply:
  "set_annotations lib attrs bd m k =
     (if k = subnetKubeManagedAnnotation then Some ''true''
      else if k = backendPublicIPAnnotation then
        (if index (Some m) backendPublicIPOverwriteAnnotation \<noteq> []
         then (if index (Some m) backendPublicIPAnnotation
                    \<noteq> index (Some m) backendPublicIPOverwriteAnnotation
               then Some (index (Some m) backendPublicIPOverwriteAnnotation)
               else m backendPublicIPAnnotation)
         else Some (IP4_String lib (PublicIP attrs)))
      else if k = backendDataAnnotation then Some bd
      else if k = backendTypeAnnotation then Some (BackendType attrs)
      else m k)"
  by (simp add: set_annotations_def Let_def index_Some_upd keys_neq)

lemma index_set_annotations_public_ip:
  "index (Some (set_annotations lib attrs bd m)) backendPublicIPAnnotation =
     (if index (Some m) backendPublicIPOverwriteAnnotation \<noteq> []
      then index (Some m) backendPublicIPOverwriteAnnotation
      else IP4_String lib (PublicIP attrs))"
  by (simp add: index_def lookup_ok_def set_annotations_apply keys_neq split: option.splits)

lemma patch_node_eq:
  "patch_node ksm cachedNode n =
     (case CreateTwoWayMergePatch cachedNode n of
        Inl err \<Rightarrow> ([], Some (ErrCreatePatch (nodeName ksm) err))
      | Inr p \<Rightarrow> ([issued_call ksm p], client ksm (issued_call ksm p)))"
  by (simp add: patch_node_def json_Marshal_def issued_call_def Let_def split: sum.splits)

lemma apply_CreateTwoWayMergePatch:
  assumes "CreateTwoWayMergePatch original modified = Inr p"
    and "Annotations modified = Some m"
  shows "apply_patch p original = modified"
  using assms
  by (cases modified) (auto simp add: CreateTwoWayMergePatch_def apply_patch_def annots_def fun_eq_iff)

lemma AcquireLease_no_write:
  assumes "nodeStore ksm (nodeName ksm) = Inr cached"
    and "PodCIDR cached = [] \<or> (\<exists>e. MarshalJSON lib (BackendData attrs) = Inl e) \<or>
         (\<exists>e. ParseCIDR lib (PodCIDR cached) = Inl e) \<or>
         (\<exists>bd. MarshalJSON lib (BackendData attrs) = Inr bd \<and> \<not> annotations_differ lib cached attrs bd) \<or>
         Annotations cached = None"
  shows "fst (AcquireLease lib ksm now attrs) = []"
  using assms
  by (auto simp add: AcquireLease_def Scheme_DeepCopy_def split: sum.splits option.splits prod.splits)

lemma AcquireLease_write:
  assumes "nodeStore ksm (nodeName ksm) = Inr cached"
    and "PodCIDR cached \<noteq> []"
    and "MarshalJSON lib (BackendData attrs) = Inr bd"
    and "ParseCIDR lib (PodCIDR cached) = Inr cidr"
    and "annotations_differ lib cached attrs bd"
    and "Annotations cached = Some m"
    and "CreateTwoWayMergePatch cached (cached\<lparr>Annotations := Some (set_annotations lib attrs bd m)\<rparr>) = Inr p"
  shows "AcquireLease lib ksm now attrs =
           ([issued_call ksm p],
            (case client ksm (issued_call ksm p) of
               Some err \<Rightarrow> Returns (Inl err)
             | None \<Rightarrow> new_lease lib cidr attrs now))"
  using assms
  by (simp add: AcquireLease_def Scheme_DeepCopy_def patch_node_eq split: option.splits)

lemma AcquireLease_call_cases:
  assumes "c \<in> set (fst (AcquireLease lib ksm now attrs))"
  shows "\<exists>cached bd cidr m p.
           nodeStore ksm (nodeName ksm) = Inr cached \<and> PodCIDR cached \<noteq> [] \<and>
           MarshalJSON lib (BackendData attrs) = Inr bd \<and>
           ParseCIDR lib (PodCIDR cached) = Inr cidr \<and>
           annotations_differ lib cached attrs bd \<and> Annotations cached = Some m \<and>
           CreateTwoWayMergePatch cached
             (cached\<lparr>Annotations := Some (set_annotations lib attrs bd m)\<rparr>) = Inr p \<and>
           c = issued_call ksm p \<and> fst (AcquireLease lib ksm now attrs) = [c]"
  using assms
  by (auto simp add: AcquireLease_def Scheme_DeepCopy_def patch_node_eq
      split: sum.splits option.splits prod.splits if_splits)

lemma CreateTwoWayMergePatch_total: "\<exists>p. CreateTwoWayMergePatch a b = Inr p"
  by (simp add: CreateTwoWayMergePatch_def)


lemma index_set_annotations_overwrite:
  "index (Some (set_annotations lib attrs bd m)) backendPublicIPOverwriteAnnotation
     = index (Some m) backendPublicIPOverwriteAnnotation"
  by (simp add: index_def lookup_ok_def set_annotations_apply keys_neq)

lemma set_annotations_settled:
  assumes "index (Some m) backendPublicIPOverwriteAnnotation = [] \<or>
           index (Some m) backendPublicIPOverwriteAnnotation = IP4_String lib (PublicIP attrs)"
    and "Annotations n' = Some (set_annotations lib attrs bd m)"
  shows "\<not> annotations_differ lib n' attrs bd"
  using assms
  by (auto simp add: annotations_differ_def index_set_annotations_public_ip
      index_set_annotations_overwrite)
     (simp_all add: index_def lookup_ok_def set_annotations_apply keys_neq)

lemma AcquireLease_calls_same_cache:
  assumes "nodeStore ksm (nodeName ksm) = Inr cached"
    and "nodeStore ksm' (nodeName ksm') = Inr cached"
    and "nodeName ksm' = nodeName ksm"
  shows "fst (AcquireLease lib ksm' now' attrs) = fst (AcquireLease lib ksm now attrs)"
  using assms
  by (auto simp add: AcquireLease_def Scheme_DeepCopy_def patch_node_eq issued_call_def
      split: sum.splits option.splits prod.splits)

lemma second_call_no_write:
  assumes cached: "nodeStore ksm (nodeName ksm) = Inr cached"
    and ov: "index (Annotations cached) backendPublicIPOverwriteAnnotation = [] \<or>
             index (Annotations cached) backendPublicIPOverwriteAnnotation
               = IP4_String lib (PublicIP attrs)"
    and name: "nodeName ksm' = nodeName ksm"
    and after: "nodeStore ksm' (nodeName ksm')
                  = Inr (cache_after (fst (AcquireLease lib ksm now attrs)) cached)"
  shows "fst (AcquireLease lib ksm' now' attrs) = []"
proof (cases "fst (AcquireLease lib ksm now attrs)")
  case Nil
  with after have "nodeStore ksm' (nodeName ksm') = Inr cached"
    by (simp add: cache_after_def)
  with cached name Nil show ?thesis
    using AcquireLease_calls_same_cache [of ksm cached ksm' lib now' attrs now] by simp
next
  case (Cons c cs)
  then have "c \<in> set (fst (AcquireLease lib ksm now attrs))" by simp
  from AcquireLease_call_cases [OF this] cached obtain bd cidr m p where
    bd: "MarshalJSON lib (BackendData attrs) = Inr bd"
    and cidr: "ParseCIDR lib (PodCIDR cached) = Inr cidr"
    and m: "Annotations cached = Some m"
    and p: "CreateTwoWayMergePatch cached
              (cached\<lparr>Annotations := Some (set_annotations lib attrs bd m)\<rparr>) = Inr p"
    and c: "c = issued_call ksm p" and one: "fst (AcquireLease lib ksm now attrs) = [c]"
    by auto
  let ?n = "cached\<lparr>Annotations := Some (set_annotations lib attrs bd m)\<rparr>"
  have "apply_patch p cached = ?n"
    using apply_CreateTwoWayMergePatch [OF p] by simp
  with one c have "cache_after (fst (AcquireLease lib ksm now attrs)) cached = ?n"
    by (simp add: cache_after_def issued_call_def)
  with after have store: "nodeStore ksm' (nodeName ksm') = Inr ?n" by simp
  have "\<not> annotations_differ lib ?n attrs bd"
    using ov m set_annotations_settled [of m lib attrs ?n bd] by simp
  with bd have "\<exists>bd. MarshalJSON lib (BackendData attrs) = Inr bd \<and>
                  \<not> annotations_differ lib ?n attrs bd" by blast
  then show ?thesis
    using AcquireLease_no_write [OF store] by blast
qed

text \<open>
  Claim C1, as amended. \<open>AcquireLease\<close> issues no patch call when the cached entry's
  backend-data, backend-type and public-IP annotations are the values of the attributes,
  the marker is "true", and the override annotation is empty or is the attributes' public
  IP. A second call with the same attributes, made when the cache holds the entry as the
  first call's patch left it, issues no patch call either, as long as the entry's override
  annotation is empty or is the attributes' public IP.
\<close>

theorem AcquireLease_zero_writes_when_settled:
  assumes "nodeStore ksm (nodeName ksm) = Inr cached"
    and "index (Annotations cached) backendPublicIPOverwriteAnnotation = [] \<or>
         index (Annotations cached) backendPublicIPOverwriteAnnotation
           = IP4_String lib (PublicIP attrs)"
  shows "(MarshalJSON lib (BackendData attrs)
            = Inr (index (Annotations cached) backendDataAnnotation) \<and>
          index (Annotations cached) backendTypeAnnotation = BackendType attrs \<and>
          index (Annotations cached) backendPublicIPAnnotation
            = IP4_String lib (PublicIP attrs) \<and>
          index (Annotations cached) subnetKubeManagedAnnotation = ''true''
          \<longrightarrow> fst (AcquireLease lib ksm now attrs) = []) \<and>
         (nodeName ksm' = nodeName ksm \<and>
          nodeStore ksm' (nodeName ksm')
            = Inr (cache_after (fst (AcquireLease lib ksm now attrs)) cached)
          \<longrightarrow> fst (AcquireLease lib ksm' now' attrs) = [])"
proof (intro conjI impI)
  assume a: "MarshalJSON lib (BackendData attrs)
            = Inr (index (Annotations cached) backendDataAnnotation) \<and>
          index (Annotations cached) backendTypeAnnotation = BackendType attrs \<and>
          index (Annotations cached) backendPublicIPAnnotation
            = IP4_String lib (PublicIP attrs) \<and>
          index (Annotations cached) subnetKubeManagedAnnotation = ''true''"
  with assms(2) have "\<exists>bd. MarshalJSON lib (BackendData attrs) = Inr bd \<and>
                  \<not> annotations_differ lib cached attrs bd"
    by (auto simp add: annotations_differ_def)
  then show "fst (AcquireLease lib ksm now attrs) = []"
    using AcquireLease_no_write [OF assms(1)] by blast
next
  assume "nodeName ksm' = nodeName ksm \<and>
          nodeStore ksm' (nodeName ksm')
            = Inr (cache_after (fst (AcquireLease lib ksm now attrs)) cached)"
  then show "fst (AcquireLease lib ksm' now' attrs) = []"
    using second_call_no_write [OF assms(1) assms(2)] by blast
qed

text \<open>
  Claim C6. When the cached entry of the local node has no assigned address block (an
  empty pod CIDR), \<open>AcquireLease\<close> returns the "pod cidr not assigned" error and issues
  no patch call.
\<close>

theorem AcquireLease_pod_cidr_not_assigned:
  assumes "nodeStore ksm (nodeName ksm) = Inr cached" and "PodCIDR cached = []"
  shows "AcquireLease lib ksm now attrs
           = ([], Returns (Inl (ErrPodCidrNotAssigned (nodeName ksm))))"
  using assms by (simp add: AcquireLease_def Scheme_DeepCopy_def)

text \<open>
  Claim C5. The lease of a successful \<open>AcquireLease\<close> has the subnet made from the CIDR
  parsed from the cached entry's pod CIDR, exactly the attributes the caller passed, and
  the expiration \<open>now + 24 h\<close>.
\<close>

theorem AcquireLease_returned_lease:
  assumes "AcquireLease lib ksm now attrs = (calls, Returns (Inr l))"
  shows "\<exists>cached cidr. nodeStore ksm (nodeName ksm) = Inr cached \<and>
           ParseCIDR lib (PodCIDR cached) = Inr cidr \<and>
           FromIPNet lib cidr = Some (Subnet l) \<and>
           Attrs l = attrs \<and> Expiration l = now + 24 * Hour"
  using assms
  by (auto simp add: AcquireLease_def Scheme_DeepCopy_def new_lease_def
      split: sum.splits option.splits prod.splits if_splits)


lemma CreateTwoWayMergePatch_fields:
  assumes "CreateTwoWayMergePatch original modified = Inr p"
  shows "p_Name p = (if Name modified = Name original then None else Some (Name modified))"
    and "p_PodCIDR p
           = (if PodCIDR modified = PodCIDR original then None else Some (PodCIDR modified))"
    and "p_Annotations p k
           = (if annots (Annotations modified) k = annots (Annotations original) k then None
              else Some (annots (Annotations modified) k))"
    and "p_Rest p = (if Rest modified = Rest original then None else Some (Rest modified))"
  using assms by (auto simp add: CreateTwoWayMergePatch_def)

lemma patch_of_call:
  assumes "nodeStore ksm (nodeName ksm) = Inr cached"
    and "c \<in> set (fst (AcquireLease lib ksm now attrs))"
  shows "\<exists>bd m. MarshalJSON lib (BackendData attrs) = Inr bd \<and> Annotations cached = Some m \<and>
           CreateTwoWayMergePatch cached
             (cached\<lparr>Annotations := Some (set_annotations lib attrs bd m)\<rparr>) = Inr (pc_data c) \<and>
           apply_patch (pc_data c) cached
             = cached\<lparr>Annotations := Some (set_annotations lib attrs bd m)\<rparr> \<and>
           pc_name c = nodeName ksm \<and>
           fst (AcquireLease lib ksm now attrs) = [c]"
proof -
  from AcquireLease_call_cases [OF assms(2)] assms(1) obtain bd m p where
    bd: "MarshalJSON lib (BackendData attrs) = Inr bd"
    and m: "Annotations cached = Some m"
    and p: "CreateTwoWayMergePatch cached
              (cached\<lparr>Annotations := Some (set_annotations lib attrs bd m)\<rparr>) = Inr p"
    and c: "c = issued_call ksm p" and one: "fst (AcquireLease lib ksm now attrs) = [c]"
    by auto
  have "apply_patch p cached = cached\<lparr>Annotations := Some (set_annotations lib attrs bd m)\<rparr>"
    using apply_CreateTwoWayMergePatch [OF p] by simp
  with bd m p c one show ?thesis by (simp add: issued_call_def)
qed

lemma override_in_call:
  assumes cached: "nodeStore ksm (nodeName ksm) = Inr cached"
    and V: "index (Annotations cached) backendPublicIPOverwriteAnnotation = V" "V \<noteq> []"
    and c: "c \<in> set (fst (AcquireLease lib ksm now attrs))"
  shows "index (Annotations (apply_patch (pc_data c) cached)) backendPublicIPAnnotation = V \<and>
         p_Annotations (pc_data c) backendPublicIPAnnotation
           = (if index (Annotations cached) backendPublicIPAnnotation = V then None
              else Some (Some V))"
proof -
  from patch_of_call [OF cached c] obtain bd m where
    m: "Annotations cached = Some m"
    and p: "CreateTwoWayMergePatch cached
              (cached\<lparr>Annotations := Some (set_annotations lib attrs bd m)\<rparr>) = Inr (pc_data c)"
    and ap: "apply_patch (pc_data c) cached
               = cached\<lparr>Annotations := Some (set_annotations lib attrs bd m)\<rparr>"
    by blast
  from V m have ov: "index (Some m) backendPublicIPOverwriteAnnotation = V" by simp
  have one: "index (Annotations (apply_patch (pc_data c) cached)) backendPublicIPAnnotation = V"
    using ov V(2) by (simp add: ap index_set_annotations_public_ip)
  have "p_Annotations (pc_data c) backendPublicIPAnnotation
      = (if set_annotations lib attrs bd m backendPublicIPAnnotation = m backendPublicIPAnnotation
         then None else Some (set_annotations lib attrs bd m backendPublicIPAnnotation))"
    using m CreateTwoWayMergePatch_fields(3) [OF p] by (simp add: annots_def)
  also have "\<dots> = (if index (Some m) backendPublicIPAnnotation = V then None else Some (Some V))"
    using ov V(2)
    by (auto simp add: set_annotations_apply keys_neq index_def lookup_ok_def
        split: option.splits)
  finally show ?thesis using one m by simp
qed

lemma override_forces_write:
  assumes cached: "nodeStore ksm (nodeName ksm) = Inr cached"
    and V: "index (Annotations cached) backendPublicIPOverwriteAnnotation \<noteq> []"
      "index (Annotations cached) backendPublicIPOverwriteAnnotation
         \<noteq> IP4_String lib (PublicIP attrs)"
    and pre: "PodCIDR cached \<noteq> []" "MarshalJSON lib (BackendData attrs) = Inr bd"
      "ParseCIDR lib (PodCIDR cached) = Inr cidr"
  shows "\<exists>c. AcquireLease lib ksm now attrs =
           ([c], (case client ksm c of Some err \<Rightarrow> Returns (Inl err)
                  | None \<Rightarrow> new_lease lib cidr attrs now))"
proof -
  from V(1) obtain m where m: "Annotations cached = Some m"
    by (cases "Annotations cached") (auto simp add: index_def lookup_ok_def)
  have d: "annotations_differ lib cached attrs bd"
    using V by (simp add: annotations_differ_def)
  obtain p where p: "CreateTwoWayMergePatch cached
      (cached\<lparr>Annotations := Some (set_annotations lib attrs bd m)\<rparr>) = Inr p"
    using CreateTwoWayMergePatch_total by blast
  show ?thesis
    using AcquireLease_write [OF cached pre d m p] by blast
qed

text \<open>
  Claim C4. When the cached entry carries a non-empty override \<open>V\<close> that is not the
  attributes' public IP, every patch call \<open>AcquireLease\<close> issues leaves the entry with the
  public-IP annotation \<open>V\<close>, not the attributes' public IP: the patch sets the key to
  \<open>V\<close>, or leaves it alone when the snapshot holds \<open>V\<close> already. Such a call does issue
  one patch call once the address block, the backend data and the CIDR are in order.
\<close>

theorem AcquireLease_override_precedence:
  assumes "nodeStore ksm (nodeName ksm) = Inr cached"
    and "index (Annotations cached) backendPublicIPOverwriteAnnotation = V"
    and "V \<noteq> []" and "V \<noteq> IP4_String lib (PublicIP attrs)"
  shows "(\<forall>c \<in> set (fst (AcquireLease lib ksm now attrs)).
            index (Annotations (apply_patch (pc_data c) cached)) backendPublicIPAnnotation = V \<and>
            index (Annotations (apply_patch (pc_data c) cached)) backendPublicIPAnnotation
              \<noteq> IP4_String lib (PublicIP attrs) \<and>
            p_Annotations (pc_data c) backendPublicIPAnnotation
              = (if index (Annotations cached) backendPublicIPAnnotation = V then None
                 else Some (Some V))) \<and>
         (PodCIDR cached \<noteq> [] \<and> (\<exists>bd. MarshalJSON lib (BackendData attrs) = Inr bd) \<and>
          (\<exists>cidr. ParseCIDR lib (PodCIDR cached) = Inr cidr)
          \<longrightarrow> length (fst (AcquireLease lib ksm now attrs)) = 1)"
proof (intro conjI ballI impI)
  fix c assume c: "c \<in> set (fst (AcquireLease lib ksm now attrs))"
  from override_in_call [OF assms(1) assms(2) assms(3) c]
  show "index (Annotations (apply_patch (pc_data c) cached)) backendPublicIPAnnotation = V"
    and "p_Annotations (pc_data c) backendPublicIPAnnotation
              = (if index (Annotations cached) backendPublicIPAnnotation = V then None
                 else Some (Some V))"
    by simp_all
  then show "index (Annotations (apply_patch (pc_data c) cached)) backendPublicIPAnnotation
              \<noteq> IP4_String lib (PublicIP attrs)"
    using assms(4) by simp
next
  assume "PodCIDR cached \<noteq> [] \<and> (\<exists>bd. MarshalJSON lib (BackendData attrs) = Inr bd) \<and>
          (\<exists>cidr. ParseCIDR lib (PodCIDR cached) = Inr cidr)"
  then obtain bd cidr where pre: "PodCIDR cached \<noteq> []"
    "MarshalJSON lib (BackendData attrs) = Inr bd" "ParseCIDR lib (PodCIDR cached) = Inr cidr"
    by blast
  from assms(2,3,4) have V: "index (Annotations cached) backendPublicIPOverwriteAnnotation \<noteq> []"
      "index (Annotations cached) backendPublicIPOverwriteAnnotation
         \<noteq> IP4_String lib (PublicIP attrs)" by simp_all
  from override_forces_write [OF assms(1) V pre, of now]
  show "length (fst (AcquireLease lib ksm now attrs)) = 1" by auto
qed

text \<open>
  Claim C9. With a non-empty override \<open>V\<close> that is not the attributes' public IP, a
  successful \<open>AcquireLease\<close> returns a lease whose public IP is the attributes', while the
  one patch call it issued leaves the entry's public-IP annotation at \<open>V\<close>: the lease's
  public IP and the annotation just written differ.
\<close>

theorem AcquireLease_lease_ip_differs_from_written:
  assumes "nodeStore ksm (nodeName ksm) = Inr cached"
    and "index (Annotations cached) backendPublicIPOverwriteAnnotation = V"
    and "V \<noteq> []" and "V \<noteq> IP4_String lib (PublicIP attrs)"
    and "AcquireLease lib ksm now attrs = (calls, Returns (Inr l))"
  shows "\<exists>c. calls = [c] \<and> PublicIP (Attrs l) = PublicIP attrs \<and>
           index (Annotations (apply_patch (pc_data c) cached)) backendPublicIPAnnotation = V \<and>
           IP4_String lib (PublicIP (Attrs l))
             \<noteq> index (Annotations (apply_patch (pc_data c) cached)) backendPublicIPAnnotation"
proof -
  from assms(5) assms(1) obtain bd cidr where pre: "PodCIDR cached \<noteq> []"
    "MarshalJSON lib (BackendData attrs) = Inr bd" "ParseCIDR lib (PodCIDR cached) = Inr cidr"
    by (auto simp add: AcquireLease_def Scheme_DeepCopy_def split: sum.splits if_splits)
  from assms(2,3,4) have V: "index (Annotations cached) backendPublicIPOverwriteAnnotation \<noteq> []"
      "index (Annotations cached) backendPublicIPOverwriteAnnotation
         \<noteq> IP4_String lib (PublicIP attrs)" by simp_all
  from override_forces_write [OF assms(1) V pre, of now] assms(5)
  obtain c where c: "calls = [c]"
    and r: "Returns (Inr l) = (case client ksm c of Some err \<Rightarrow> Returns (Inl err)
                  | None \<Rightarrow> new_lease lib cidr attrs now)"
    by auto
  from r have a: "Attrs l = attrs"
    by (auto simp add: new_lease_def split: option.splits)
  from c assms(5) have "c \<in> set (fst (AcquireLease lib ksm now attrs))" by simp
  from override_in_call [OF assms(1) assms(2) assms(3) this]
  have "index (Annotations (apply_patch (pc_data c) cached)) backendPublicIPAnnotation = V"
    by simp
  with c a assms(4) show ?thesis by simp
qed

text \<open>
  Claim C8. A patch call issued by \<open>AcquireLease\<close> names only the backend-type,
  backend-data, public-IP and marker annotation keys. It does not touch the override
  annotation nor any other field of the entry: applied to the snapshot it changes nothing
  but those four keys.
\<close>

theorem AcquireLease_patch_frame:
  assumes "nodeStore ksm (nodeName ksm) = Inr cached"
    and "c \<in> set (fst (AcquireLease lib ksm now attrs))"
  shows "dom (p_Annotations (pc_data c))
           \<subseteq> {backendTypeAnnotation, backendDataAnnotation, backendPublicIPAnnotation,
               subnetKubeManagedAnnotation} \<and>
         p_Annotations (pc_data c) backendPublicIPOverwriteAnnotation = None \<and>
         p_Name (pc_data c) = None \<and> p_PodCIDR (pc_data c) = None \<and>
         p_Rest (pc_data c) = None \<and> pc_name c = nodeName ksm \<and>
         Name (apply_patch (pc_data c) cached) = Name cached \<and>
         PodCIDR (apply_patch (pc_data c) cached) = PodCIDR cached \<and>
         Rest (apply_patch (pc_data c) cached) = Rest cached \<and>
         (\<forall>k. k \<notin> {backendTypeAnnotation, backendDataAnnotation, backendPublicIPAnnotation,
                   subnetKubeManagedAnnotation}
              \<longrightarrow> annots (Annotations (apply_patch (pc_data c) cached)) k
                    = annots (Annotations cached) k)"
proof -
  from patch_of_call [OF assms] obtain bd m where
    m: "Annotations cached = Some m"
    and p: "CreateTwoWayMergePatch cached
              (cached\<lparr>Annotations := Some (set_annotations lib attrs bd m)\<rparr>) = Inr (pc_data c)"
    and ap: "apply_patch (pc_data c) cached
               = cached\<lparr>Annotations := Some (set_annotations lib attrs bd m)\<rparr>"
    and nm: "pc_name c = nodeName ksm"
    by blast
  have pa: "p_Annotations (pc_data c) = (\<lambda>k.
        if set_annotations lib attrs bd m k = m k then None
        else Some (set_annotations lib attrs bd m k))"
    using m CreateTwoWayMergePatch_fields(3) [OF p] by (simp add: annots_def fun_eq_iff)
  have rest: "p_Name (pc_data c) = None" "p_PodCIDR (pc_data c) = None"
      "p_Rest (pc_data c) = None"
    using CreateTwoWayMergePatch_fields(1,2,4) [OF p] by simp_all
  have other: "set_annotations lib attrs bd m k = m k"
    if "k \<notin> {backendTypeAnnotation, backendDataAnnotation, backendPublicIPAnnotation,
                   subnetKubeManagedAnnotation}" for k
    using that by (simp add: set_annotations_apply)
  have "dom (p_Annotations (pc_data c))
           \<subseteq> {backendTypeAnnotation, backendDataAnnotation, backendPublicIPAnnotation,
               subnetKubeManagedAnnotation}"
  proof
    fix k assume "k \<in> dom (p_Annotations (pc_data c))"
    then have "set_annotations lib attrs bd m k \<noteq> m k"
      by (auto simp add: pa split: if_splits)
    with other show "k \<in> {backendTypeAnnotation, backendDataAnnotation,
        backendPublicIPAnnotation, subnetKubeManagedAnnotation}" by blast
  qed
  moreover have "p_Annotations (pc_data c) backendPublicIPOverwriteAnnotation = None"
    using other [of backendPublicIPOverwriteAnnotation] by (simp add: pa keys_neq)
  moreover have "\<forall>k. k \<notin> {backendTypeAnnotation, backendDataAnnotation,
        backendPublicIPAnnotation, subnetKubeManagedAnnotation}
      \<longrightarrow> annots (Annotations (apply_patch (pc_data c) cached)) k
            = annots (Annotations cached) k"
    using other m by (simp add: ap annots_def)
  ultimately show ?thesis using rest nm by (simp add: ap)
qed

section \<open>The concrete entries, evaluated\<close>

lemma index_Some_empty: "index (Some Map.empty) k = []"
  by (simp add: index_def lookup_ok_def)

lemma lookup_ok_Some_upd:
  "lookup_ok (Some (m(k \<mapsto> v))) k' = (if k' = k then Some v else lookup_ok (Some m) k')"
  by (simp add: lookup_ok_def)

lemma ttl_key_neq:
  "subnetKubeManagedAnnotation \<noteq> ''node.alpha.kubernetes.io/ttl''"
  "backendDataAnnotation \<noteq> ''node.alpha.kubernetes.io/ttl''"
  "backendTypeAnnotation \<noteq> ''node.alpha.kubernetes.io/ttl''"
  "backendPublicIPAnnotation \<noteq> ''node.alpha.kubernetes.io/ttl''"
  "backendPublicIPOverwriteAnnotation \<noteq> ''node.alpha.kubernetes.io/ttl''"
  by (simp_all add: subnetKubeManagedAnnotation_def backendDataAnnotation_def
      backendTypeAnnotation_def backendPublicIPAnnotation_def
      backendPublicIPOverwriteAnnotation_def)

lemma index_annots1:
  "index (Some annots1) subnetKubeManagedAnnotation = ''true''"
  "index (Some annots1) backendTypeAnnotation = ''vxlan''"
  "index (Some annots1) backendDataAnnotation = ''{\"VNI\":1}''"
  "index (Some annots1) backendPublicIPAnnotation = ''10.0.0.5''"
  "index (Some annots1) backendPublicIPOverwriteAnnotation = []"
  by (simp_all add: annots1_def index_Some_upd index_Some_empty keys_neq)

lemma lookup_ok_annots1_marker:
  "lookup_ok (Some annots1) subnetKubeManagedAnnotation = Some ''true''"
  by (simp add: annots1_def lookup_ok_Some_upd keys_neq)

lemma dotted_lib_fields:
  "ParseIP4 dotted_lib = ParseIP4_dotted"
  "IP4_String dotted_lib = IP4_dotted"
  "ParseCIDR dotted_lib = ParseCIDR_dotted"
  "FromIPNet dotted_lib = Some"
  "MarshalJSON dotted_lib = MarshalJSON_raw"
  by (simp_all add: dotted_lib_def)

lemma octets_string_10_0_0_5: "octets_string 167772165 = ''10.0.0.5''"
  by (simp add: octets_string_def show_octet_def digit_char_def char_of_def bit_Suc_0_iff)

lemma parse_dotted_10_0_0_5: "parse_dotted ''10.0.0.5'' = Some 167772165"
  by (simp add: parse_dotted_def dtoi_def digit_val_def)

lemma parse_dotted_not_an_ip: "parse_dotted ''not-an-ip'' = None"
  by (simp add: parse_dotted_def dtoi_def digit_val_def)

lemma parse_cidr_10_1_0_0: "parse_cidr ''10.1.0.0/24'' = Some (167837696, 24)"
  by (simp add: parse_cidr_def parse_dotted_def dtoi_def digit_val_def)

lemma IP4_dotted_attrs1: "IP4_dotted (PublicIP attrs1) = ''10.0.0.5''"
  by (simp add: IP4_dotted_def attrs1_def octets_string_10_0_0_5)

lemma ParseIP4_dotted_10_0_0_5: "ParseIP4_dotted ''10.0.0.5'' = Inr (PublicIP attrs1)"
  by (simp add: ParseIP4_dotted_def parse_dotted_10_0_0_5 attrs1_def)

lemma ParseIP4_dotted_not_an_ip:
  "ParseIP4_dotted ''not-an-ip'' = Inl (ErrOther ''invalid IP address'')"
  by (simp add: ParseIP4_dotted_def parse_dotted_not_an_ip)

lemma ParseCIDR_dotted_10_1_0_0: "ParseCIDR_dotted ''10.1.0.0/24'' = Inr subnet1"
  by (simp add: ParseCIDR_dotted_def parse_cidr_10_1_0_0 subnet1_def)

lemma MarshalJSON_attrs1: "MarshalJSON dotted_lib (BackendData attrs1) = Inr ''{\"VNI\":1}''"
  by (simp add: dotted_lib_fields MarshalJSON_raw_def attrs1_def)

lemma ksm_of_fields:
  "nodeName (ksm_of n q) = ''node-1''"
  "nodeStore (ksm_of n q) ''node-1'' = Inr n"
  "client (ksm_of n q) c = None"
  "events (ksm_of n q) = q"
  "(ksm_of n q)\<lparr>events := q'\<rparr> = ksm_of n q'"
  by (simp_all add: ksm_of_def)

lemma ksm_of_nodeStore: "nodeStore (ksm_of n q) (nodeName (ksm_of n q)) = Inr n"
  by (simp add: ksm_of_def)

lemma node_with_fields:
  "Name (node_with cidr a) = ''node-1''"
  "PodCIDR (node_with cidr a) = cidr"
  "Annotations (node_with cidr a) = a"
  by (simp_all add: node_with_def)

lemma nodeToLease_node1: "nodeToLease dotted_lib node1 = Returns (Inr lease1)"
  by (simp add: nodeToLease_def node1_def node_with_fields index_annots1 dotted_lib_fields
      ParseIP4_dotted_10_0_0_5 ParseCIDR_dotted_10_1_0_0 lease1_def attrs1_def)

lemma nodeToLease_node1_vni2: "nodeToLease dotted_lib node1_vni2 = Returns (Inr lease2)"
  by (simp add: nodeToLease_def node1_vni2_def node_with_fields index_Some_upd index_annots1
      keys_neq dotted_lib_fields ParseIP4_dotted_10_0_0_5 ParseCIDR_dotted_10_1_0_0 lease2_def
      attrs1_def)

lemma nodeToLease_node1_bad_ip:
  "nodeToLease dotted_lib node1_bad_ip = Returns (Inl (ErrOther ''invalid IP address''))"
  by (simp add: nodeToLease_def node1_bad_ip_def node_with_fields index_Some_upd
      dotted_lib_fields ParseIP4_dotted_not_an_ip)

lemma IP4_String_attrs1: "IP4_String dotted_lib (PublicIP attrs1) = ''10.0.0.5''"
  by (simp add: dotted_lib_fields IP4_dotted_attrs1)

lemma PodCIDR_examples:
  "PodCIDR node1 = ''10.1.0.0/24''"
  "PodCIDR node1_overwrite = ''10.1.0.0/24''"
  "PodCIDR node1_settled = ''10.1.0.0/24''"
  "PodCIDR node1_bare = ''10.1.0.0/24''"
  "PodCIDR node1_unassigned = []"
  by (simp_all add: node1_def node1_overwrite_def node1_settled_def node1_bare_def
      node1_unassigned_def node_with_fields)

lemma ParseCIDR_10_1_0_0: "ParseCIDR dotted_lib ''10.1.0.0/24'' = Inr subnet1"
  by (simp add: dotted_lib_fields ParseCIDR_dotted_10_1_0_0)

lemma new_lease_dotted:
  "new_lease dotted_lib sn attrs now
     = Returns (Inr \<lparr>Subnet = sn, Attrs = attrs, Expiration = now + 24 * Hour\<rparr>)"
  by (simp add: new_lease_def dotted_lib_fields)

lemma node1_up_to_date: "\<not> annotations_differ dotted_lib node1 attrs1 ''{\"VNI\":1}''"
  by (simp add: annotations_differ_def node1_def node_with_fields index_annots1
      IP4_String_attrs1)
     (simp add: attrs1_def)

lemma AcquireLease_up_to_date:
  assumes "nodeStore ksm (nodeName ksm) = Inr cached"
    and "PodCIDR cached \<noteq> []"
    and "MarshalJSON lib (BackendData attrs) = Inr bd"
    and "ParseCIDR lib (PodCIDR cached) = Inr cidr"
    and "\<not> annotations_differ lib cached attrs bd"
  shows "AcquireLease lib ksm now attrs = ([], new_lease lib cidr attrs now)"
  using assms by (simp add: AcquireLease_def Scheme_DeepCopy_def)

lemma AcquireLease_node1:
  "AcquireLease dotted_lib (ksm_of node1 q) now attrs1
     = ([], Returns (Inr \<lparr>Subnet = subnet1, Attrs = attrs1, Expiration = now + 24 * Hour\<rparr>))"
proof -
  have "PodCIDR node1 \<noteq> []" by (simp add: PodCIDR_examples)
  moreover have "ParseCIDR dotted_lib (PodCIDR node1) = Inr subnet1"
    by (simp add: PodCIDR_examples ParseCIDR_10_1_0_0)
  ultimately show ?thesis
    using AcquireLease_up_to_date [OF ksm_of_nodeStore _ MarshalJSON_attrs1 _ node1_up_to_date]
    by (simp add: new_lease_dotted)
qed

section \<open>Properties of the event translator\<close>

text \<open>
  Claim C2. For an add, update or delete notification whose entry lacks the marker
  annotation, or carries any value but "true", the queue stays as it was, whatever else the
  entry carries: the handlers return with the manager unchanged (an update whose old object
  is no node panics before anything is queued).
\<close>

theorem unmanaged_entry_no_event:
  assumes "lookup_ok (Annotations n) subnetKubeManagedAnnotation \<noteq> Some ''true''"
  shows "handleAddLeaseEvent lib EventAdded (NodeObj n) ksm = Returns ksm \<and>
         handleAddLeaseEvent lib EventRemoved (NodeObj n) ksm = Returns ksm \<and>
         handleUpdateLeaseEvent lib oldObj (NodeObj n) ksm
           = (case oldObj of NodeObj old \<Rightarrow> Returns ksm | OtherObj \<Rightarrow> Panics)"
  using assms
  by (simp add: handleAddLeaseEvent_def handleUpdateLeaseEvent_def split: obj.split)

theorem unmanaged_entry_no_event_witness:
  "lookup_ok (Annotations node1_unmanaged) subnetKubeManagedAnnotation \<noteq> Some ''true'' \<and>
   handleAddLeaseEvent dotted_lib EventAdded (NodeObj node1_unmanaged) (ksm_of node1 [])
     = Returns (ksm_of node1 []) \<and>
   handleAddLeaseEvent dotted_lib EventRemoved (NodeObj node1_unmanaged) (ksm_of node1 [])
     = Returns (ksm_of node1 []) \<and>
   handleUpdateLeaseEvent dotted_lib (NodeObj node1_relabelled) (NodeObj node1_unmanaged)
       (ksm_of node1 [])
     = Returns (ksm_of node1 [])"
proof -
  have h: "lookup_ok (Annotations node1_unmanaged) subnetKubeManagedAnnotation
             \<noteq> Some ''true''"
    by (simp add: node1_unmanaged_def node_with_fields lookup_ok_Some_upd)
  show ?thesis
    using h unmanaged_entry_no_event
      [OF h, of dotted_lib "ksm_of node1 []" "NodeObj node1_relabelled"]
    by simp
qed

text \<open>
  Claim C10. An update whose new entry lacks the marker, or carries any value but "true",
  queues no event of any type, also when the old entry was opted in: taking the marker away
  by an update gives no Removed event.
\<close>

theorem update_without_marker_no_event:
  assumes "lookup_ok (Annotations n) subnetKubeManagedAnnotation \<noteq> Some ''true''"
  shows "handleUpdateLeaseEvent lib (NodeObj old) (NodeObj n) ksm = Returns ksm"
  using assms by (simp add: handleUpdateLeaseEvent_def)

theorem update_without_marker_no_event_witness:
  "lookup_ok (Annotations node1) subnetKubeManagedAnnotation = Some ''true'' \<and>
   lookup_ok (Annotations node1_unmanaged) subnetKubeManagedAnnotation \<noteq> Some ''true'' \<and>
   handleUpdateLeaseEvent dotted_lib (NodeObj node1) (NodeObj node1_unmanaged)
       (ksm_of node1 [event1])
     = Returns (ksm_of node1 [event1])"
proof -
  have o: "lookup_ok (Annotations node1) subnetKubeManagedAnnotation = Some ''true''"
    by (simp add: node1_def node_with_fields lookup_ok_annots1_marker)
  have h: "lookup_ok (Annotations node1_unmanaged) subnetKubeManagedAnnotation
             \<noteq> Some ''true''"
    by (simp add: node1_unmanaged_def node_with_fields lookup_ok_Some_upd)
  show ?thesis
    using o h update_without_marker_no_event
      [OF h, of dotted_lib node1 "ksm_of node1 [event1]"]
    by simp
qed

text \<open>
  Claim C3, as amended. For an update on an opted-in entry: when the backend-data,
  backend-type and public-IP annotations read the same in the old and the new entry, no
  event is queued, whatever other keys changed. When one of the three differs and the new
  entry translates to a lease, the handler sends exactly one event, of type Added and
  carrying that lease, on the channel: it is appended to the queue when the queue holds
  fewer events than its capacity. When the translation of the new entry fails, no event is
  queued.
\<close>

theorem update_event_when_lease_changed:
  assumes "lookup_ok (Annotations n) subnetKubeManagedAnnotation = Some ''true''"
  shows "(index (Annotations old) backendDataAnnotation
            = index (Annotations n) backendDataAnnotation \<and>
          index (Annotations old) backendTypeAnnotation
            = index (Annotations n) backendTypeAnnotation \<and>
          index (Annotations old) backendPublicIPAnnotation
            = index (Annotations n) backendPublicIPAnnotation
          \<longrightarrow> handleUpdateLeaseEvent lib (NodeObj old) (NodeObj n) ksm = Returns ksm) \<and>
         (\<not> (index (Annotations old) backendDataAnnotation
               = index (Annotations n) backendDataAnnotation \<and>
             index (Annotations old) backendTypeAnnotation
               = index (Annotations n) backendTypeAnnotation \<and>
             index (Annotations old) backendPublicIPAnnotation
               = index (Annotations n) backendPublicIPAnnotation)
          \<longrightarrow> (\<forall>l. nodeToLease lib n = Returns (Inr l) \<longrightarrow>
                  handleUpdateLeaseEvent lib (NodeObj old) (NodeObj n) ksm
                    = chan_send ksm \<lparr>Type = EventAdded, Lease = l\<rparr> \<and>
                  (length (events ksm) < events_capacity \<longrightarrow>
                   handleUpdateLeaseEvent lib (NodeObj old) (NodeObj n) ksm
                     = Returns (ksm\<lparr>events :=
                         events ksm @ [\<lparr>Type = EventAdded, Lease = l\<rparr>]\<rparr>))) \<and>
              (\<forall>err. nodeToLease lib n = Returns (Inl err) \<longrightarrow>
                  handleUpdateLeaseEvent lib (NodeObj old) (NodeObj n) ksm = Returns ksm))"
  using assms by (auto simp add: handleUpdateLeaseEvent_def chan_send_def)

lemma lookup_ok_marker_examples:
  "lookup_ok (Annotations node1) subnetKubeManagedAnnotation = Some ''true''"
  "lookup_ok (Annotations node1_relabelled) subnetKubeManagedAnnotation = Some ''true''"
  "lookup_ok (Annotations node1_vni2) subnetKubeManagedAnnotation = Some ''true''"
  "lookup_ok (Annotations node1_bad_ip) subnetKubeManagedAnnotation = Some ''true''"
  by (simp_all add: node1_def node1_relabelled_def node1_vni2_def node1_bad_ip_def
      node_with_fields lookup_ok_Some_upd lookup_ok_annots1_marker keys_neq ttl_key_neq)

lemma index_node1:
  "index (Annotations node1) backendDataAnnotation = ''{\"VNI\":1}''"
  "index (Annotations node1) backendTypeAnnotation = ''vxlan''"
  "index (Annotations node1) backendPublicIPAnnotation = ''10.0.0.5''"
  by (simp_all add: node1_def node_with_fields index_annots1)

lemma index_node1_relabelled:
  "index (Annotations node1_relabelled) backendDataAnnotation = ''{\"VNI\":1}''"
  "index (Annotations node1_relabelled) backendTypeAnnotation = ''vxlan''"
  "index (Annotations node1_relabelled) backendPublicIPAnnotation = ''10.0.0.5''"
  "index (Annotations node1_relabelled) ''node.alpha.kubernetes.io/ttl'' = ''0''"
  "index (Annotations node1) ''node.alpha.kubernetes.io/ttl'' = []"
  by (simp_all add: node1_relabelled_def node1_def node_with_fields index_Some_upd
      index_Some_empty index_annots1 annots1_def keys_neq ttl_key_neq ttl_key_neq [symmetric])

lemma index_node1_vni2:
  "index (Annotations node1_vni2) backendDataAnnotation = ''{\"VNI\":2}''"
  by (simp add: node1_vni2_def node_with_fields index_Some_upd)

lemma index_node1_bad_ip:
  "index (Annotations node1_bad_ip) backendPublicIPAnnotation = ''not-an-ip''"
  by (simp add: node1_bad_ip_def node_with_fields index_Some_upd)

lemma events_capacity_room: "length (events (ksm_of n [])) < events_capacity"
  by (simp add: ksm_of_fields events_capacity_def)

theorem update_event_when_lease_changed_witness:
  "(lookup_ok (Annotations node1_relabelled) subnetKubeManagedAnnotation = Some ''true'' \<and>
    index (Annotations node1) ''node.alpha.kubernetes.io/ttl''
      \<noteq> index (Annotations node1_relabelled) ''node.alpha.kubernetes.io/ttl'' \<and>
    handleUpdateLeaseEvent dotted_lib (NodeObj node1) (NodeObj node1_relabelled)
        (ksm_of node1 [])
      = Returns (ksm_of node1 [])) \<and>
   (lookup_ok (Annotations node1_vni2) subnetKubeManagedAnnotation = Some ''true'' \<and>
    index (Annotations node1) backendDataAnnotation
      \<noteq> index (Annotations node1_vni2) backendDataAnnotation \<and>
    nodeToLease dotted_lib node1_vni2 = Returns (Inr lease2) \<and>
    length (events (ksm_of node1 [])) < events_capacity \<and>
    handleUpdateLeaseEvent dotted_lib (NodeObj node1) (NodeObj node1_vni2) (ksm_of node1 [])
      = Returns (ksm_of node1 [\<lparr>Type = EventAdded, Lease = lease2\<rparr>])) \<and>
   (lookup_ok (Annotations node1_bad_ip) subnetKubeManagedAnnotation = Some ''true'' \<and>
    index (Annotations node1) backendPublicIPAnnotation
      \<noteq> index (Annotations node1_bad_ip) backendPublicIPAnnotation \<and>
    nodeToLease dotted_lib node1_bad_ip = Returns (Inl (ErrOther ''invalid IP address'')) \<and>
    handleUpdateLeaseEvent dotted_lib (NodeObj node1) (NodeObj node1_bad_ip) (ksm_of node1 [])
      = Returns (ksm_of node1 []))"
proof -
  have same: "index (Annotations node1) backendDataAnnotation
            = index (Annotations node1_relabelled) backendDataAnnotation \<and>
          index (Annotations node1) backendTypeAnnotation
            = index (Annotations node1_relabelled) backendTypeAnnotation \<and>
          index (Annotations node1) backendPublicIPAnnotation
            = index (Annotations node1_relabelled) backendPublicIPAnnotation"
    by (simp add: index_node1 index_node1_relabelled)
  have other: "index (Annotations node1) ''node.alpha.kubernetes.io/ttl''
      \<noteq> index (Annotations node1_relabelled) ''node.alpha.kubernetes.io/ttl''"
    by (simp add: index_node1_relabelled)
  have data: "index (Annotations node1) backendDataAnnotation
      \<noteq> index (Annotations node1_vni2) backendDataAnnotation"
    by (simp add: index_node1 index_node1_vni2)
  have ip: "index (Annotations node1) backendPublicIPAnnotation
      \<noteq> index (Annotations node1_bad_ip) backendPublicIPAnnotation"
    by (simp add: index_node1 index_node1_bad_ip)
  have q: "(ksm_of node1 [])\<lparr>events :=
      events (ksm_of node1 []) @ [\<lparr>Type = EventAdded, Lease = lease2\<rparr>]\<rparr>
      = ksm_of node1 [\<lparr>Type = EventAdded, Lease = lease2\<rparr>]"
    by (simp add: ksm_of_fields)
  note relabelled = update_event_when_lease_changed
    [OF lookup_ok_marker_examples(2), of node1 dotted_lib "ksm_of node1 []"]
  note vni2 = update_event_when_lease_changed
    [OF lookup_ok_marker_examples(3), of node1 dotted_lib "ksm_of node1 []"]
  note bad_ip = update_event_when_lease_changed
    [OF lookup_ok_marker_examples(4), of node1 dotted_lib "ksm_of node1 []"]
  have 1: "handleUpdateLeaseEvent dotted_lib (NodeObj node1) (NodeObj node1_relabelled)
        (ksm_of node1 []) = Returns (ksm_of node1 [])"
    using relabelled same by blast
  have "handleUpdateLeaseEvent dotted_lib (NodeObj node1) (NodeObj node1_vni2) (ksm_of node1 [])
      = Returns ((ksm_of node1 [])\<lparr>events :=
          events (ksm_of node1 []) @ [\<lparr>Type = EventAdded, Lease = lease2\<rparr>]\<rparr>)"
    using vni2 data nodeToLease_node1_vni2 events_capacity_room [of node1] by blast
  then have 2: "handleUpdateLeaseEvent dotted_lib (NodeObj node1) (NodeObj node1_vni2)
      (ksm_of node1 []) = Returns (ksm_of node1 [\<lparr>Type = EventAdded, Lease = lease2\<rparr>])"
    by (simp only: q)
  have 3: "handleUpdateLeaseEvent dotted_lib (NodeObj node1) (NodeObj node1_bad_ip)
      (ksm_of node1 []) = Returns (ksm_of node1 [])"
    using bad_ip ip nodeToLease_node1_bad_ip by blast
  show ?thesis
    using 1 2 3 relabelled vni2 bad_ip other data ip events_capacity_room [of node1]
      nodeToLease_node1_vni2 nodeToLease_node1_bad_ip lookup_ok_marker_examples
    by blast
qed

text \<open>
  The claim as stated fails where the new entry does not translate: the old entry
  \<open>node1\<close> and the new entry \<open>node1_bad_ip\<close> are both opted in and differ in the
  public-IP annotation, and the update leaves the empty queue empty.
\<close>

theorem update_event_counterexample:
  "lookup_ok (Annotations node1) subnetKubeManagedAnnotation = Some ''true'' \<and>
   lookup_ok (Annotations node1_bad_ip) subnetKubeManagedAnnotation = Some ''true'' \<and>
   index (Annotations node1) backendPublicIPAnnotation
     \<noteq> index (Annotations node1_bad_ip) backendPublicIPAnnotation \<and>
   events (ksm_of node1 []) = [] \<and>
   handleUpdateLeaseEvent dotted_lib (NodeObj node1) (NodeObj node1_bad_ip) (ksm_of node1 [])
     = Returns (ksm_of node1 [])"
  by (simp add: lookup_ok_marker_examples index_node1 index_node1_bad_ip ksm_of_fields
      handleUpdateLeaseEvent_def nodeToLease_node1_bad_ip)

section \<open>Properties of the watch pull API\<close>

text \<open>
  Claim C7, as amended. When the cancellation signal has fired and no event is queued,
  \<open>WatchLeases\<close> returns an empty event list and no error. When an event is queued and
  either the cancellation signal has not fired or the \<open>select\<close> takes the receive, it
  returns exactly the oldest queued event, removed from the queue, and no error. When an
  event is queued, the signal has fired and the \<open>select\<close> takes the cancellation, it
  returns the empty event list and no error, and the queue keeps the event.
\<close>

theorem WatchLeases_result:
  "(events ksm = [] \<and> done \<longrightarrow>
      WatchLeases ksm done pick = Returns ((\<lparr>Events = []\<rparr>, None), ksm)) \<and>
   (\<forall>e q. events ksm = e # q \<and> (\<not> done \<or> pick = CaseEvent) \<longrightarrow>
      WatchLeases ksm done pick
        = Returns ((\<lparr>Events = [e]\<rparr>, None), ksm\<lparr>events := q\<rparr>)) \<and>
   (\<forall>e q. events ksm = e # q \<and> done \<and> pick = CaseDone \<longrightarrow>
      WatchLeases ksm done pick = Returns ((\<lparr>Events = []\<rparr>, None), ksm))"
  by (auto simp add: WatchLeases_def)

theorem WatchLeases_result_witness:
  "(events (ksm_of node1 []) = [] \<and>
    WatchLeases (ksm_of node1 []) True CaseEvent
      = Returns ((\<lparr>Events = []\<rparr>, None), ksm_of node1 [])) \<and>
   (events (ksm_of node1 [event1]) = [event1] \<and>
    WatchLeases (ksm_of node1 [event1]) False CaseDone
      = Returns ((\<lparr>Events = [event1]\<rparr>, None), ksm_of node1 [])) \<and>
   (WatchLeases (ksm_of node1 [event1]) True CaseEvent
      = Returns ((\<lparr>Events = [event1]\<rparr>, None), ksm_of node1 [])) \<and>
   (WatchLeases (ksm_of node1 [event1]) True CaseDone
      = Returns ((\<lparr>Events = []\<rparr>, None), ksm_of node1 [event1]))"
  using WatchLeases_result [of "ksm_of node1 []" True CaseEvent]
    WatchLeases_result [of "ksm_of node1 [event1]" False CaseDone]
    WatchLeases_result [of "ksm_of node1 [event1]" True CaseEvent]
    WatchLeases_result [of "ksm_of node1 [event1]" True CaseDone]
  by (simp add: ksm_of_fields)

text \<open>
  The claim as stated fails where an event is queued and the signal has fired as well: the
  \<open>select\<close> may take the cancellation, and the call then returns the empty event list
  although \<open>event1\<close> is available.
\<close>

theorem WatchLeases_counterexample:
  "events (ksm_of node1 [event1]) = [event1] \<and>
   WatchLeases (ksm_of node1 [event1]) True CaseDone
     = Returns ((\<lparr>Events = []\<rparr>, None), ksm_of node1 [event1])"
  by (simp add: WatchLeases_def ksm_of_fields)

section \<open>The lease acquirer on the concrete entries\<close>

lemma AcquireLease_one_call:
  assumes "nodeStore ksm (nodeName ksm) = Inr cached"
    and "PodCIDR cached \<noteq> []"
    and "MarshalJSON lib (BackendData attrs) = Inr bd"
    and "ParseCIDR lib (PodCIDR cached) = Inr cidr"
    and "annotations_differ lib cached attrs bd"
    and "Annotations cached = Some m"
  shows "\<exists>c. AcquireLease lib ksm now attrs =
           ([c], (case client ksm c of Some err \<Rightarrow> Returns (Inl err)
                  | None \<Rightarrow> new_lease lib cidr attrs now))"
proof -
  obtain p where p: "CreateTwoWayMergePatch cached
      (cached\<lparr>Annotations := Some (set_annotations lib attrs bd m)\<rparr>) = Inr p"
    using CreateTwoWayMergePatch_total by blast
  show ?thesis
    using AcquireLease_write [OF assms p] by blast
qed

lemma index_node1_overwrite:
  "index (Annotations node1_overwrite) backendPublicIPOverwriteAnnotation = ''1.2.3.4''"
  "index (Annotations node1_overwrite) backendPublicIPAnnotation = ''10.0.0.5''"
  by (simp_all add: node1_overwrite_def node_with_fields index_Some_upd index_annots1 keys_neq)

lemma index_node1_settled:
  "index (Annotations node1_settled) backendPublicIPOverwriteAnnotation = ''1.2.3.4''"
  by (simp add: node1_settled_def node_with_fields annots_settled_def index_Some_upd keys_neq)

lemma overwrite_is_not_attrs1:
  "''1.2.3.4'' \<noteq> IP4_String dotted_lib (PublicIP attrs1)"
  by (simp add: IP4_String_attrs1)

lemma ParseCIDR_examples:
  "ParseCIDR dotted_lib (PodCIDR node1) = Inr subnet1"
  "ParseCIDR dotted_lib (PodCIDR node1_overwrite) = Inr subnet1"
  "ParseCIDR dotted_lib (PodCIDR node1_settled) = Inr subnet1"
  "ParseCIDR dotted_lib (PodCIDR node1_bare) = Inr subnet1"
  by (simp_all add: PodCIDR_examples ParseCIDR_10_1_0_0)

lemma PodCIDR_assigned:
  "PodCIDR node1 \<noteq> []" "PodCIDR node1_overwrite \<noteq> []" "PodCIDR node1_settled \<noteq> []"
  "PodCIDR node1_bare \<noteq> []"
  by (simp_all add: PodCIDR_examples)

lemma AcquireLease_overwrite_entry:
  assumes "index (Annotations n) backendPublicIPOverwriteAnnotation = ''1.2.3.4''"
    and "PodCIDR n \<noteq> []" and "ParseCIDR dotted_lib (PodCIDR n) = Inr subnet1"
  shows "length (fst (AcquireLease dotted_lib (ksm_of n q) now attrs1)) = 1 \<and>
         snd (AcquireLease dotted_lib (ksm_of n q) now attrs1)
           = Returns (Inr \<lparr>Subnet = subnet1, Attrs = attrs1, Expiration = now + 24 * Hour\<rparr>)"
proof -
  have V: "index (Annotations n) backendPublicIPOverwriteAnnotation \<noteq> []"
    "index (Annotations n) backendPublicIPOverwriteAnnotation
       \<noteq> IP4_String dotted_lib (PublicIP attrs1)"
    using assms(1) overwrite_is_not_attrs1 by simp_all
  from override_forces_write
    [where now = now, OF ksm_of_nodeStore [of n q] V assms(2) MarshalJSON_attrs1 assms(3)]
  show ?thesis
    by (auto simp add: ksm_of_fields new_lease_dotted)
qed

text \<open>Witness of claim C6: the entry without an address block.\<close>

theorem AcquireLease_pod_cidr_not_assigned_witness:
  "nodeStore (ksm_of node1_unassigned []) (nodeName (ksm_of node1_unassigned []))
     = Inr node1_unassigned \<and>
   PodCIDR node1_unassigned = [] \<and>
   AcquireLease dotted_lib (ksm_of node1_unassigned []) 1000 attrs1
     = ([], Returns (Inl (ErrPodCidrNotAssigned ''node-1'')))"
  using AcquireLease_pod_cidr_not_assigned
    [where lib = dotted_lib and now = 1000 and attrs = attrs1,
     OF ksm_of_nodeStore [of node1_unassigned "[]"] PodCIDR_examples(5)]
  by (simp add: ksm_of_nodeStore PodCIDR_examples ksm_of_fields)

text \<open>Witness of claim C5: the entry of the end-to-end scenario, already up to date.\<close>

theorem AcquireLease_returned_lease_witness:
  "AcquireLease dotted_lib (ksm_of node1 []) 1000 attrs1
     = ([], Returns (Inr \<lparr>Subnet = subnet1, Attrs = attrs1,
                           Expiration = 1000 + 24 * Hour\<rparr>)) \<and>
   nodeStore (ksm_of node1 []) (nodeName (ksm_of node1 [])) = Inr node1 \<and>
   ParseCIDR dotted_lib (PodCIDR node1) = Inr subnet1 \<and>
   FromIPNet dotted_lib subnet1
     = Some (Subnet \<lparr>Subnet = subnet1, Attrs = attrs1, Expiration = 1000 + 24 * Hour\<rparr>) \<and>
   Attrs \<lparr>Subnet = subnet1, Attrs = attrs1, Expiration = 1000 + 24 * Hour\<rparr> = attrs1 \<and>
   Expiration \<lparr>Subnet = subnet1, Attrs = attrs1, Expiration = 1000 + 24 * Hour\<rparr>
     = 1000 + 24 * Hour"
  using AcquireLease_returned_lease [OF AcquireLease_node1 [of "[]" 1000]]
    AcquireLease_node1 [of "[]" 1000] ksm_of_nodeStore [of node1 "[]"] ParseCIDR_examples(1)
    dotted_lib_fields(4)
  by simp

text \<open>Witnesses of claims C4, C9 and C8: the entry with the override 1.2.3.4.\<close>

theorem AcquireLease_override_precedence_witness:
  "nodeStore (ksm_of node1_overwrite []) (nodeName (ksm_of node1_overwrite []))
     = Inr node1_overwrite \<and>
   index (Annotations node1_overwrite) backendPublicIPOverwriteAnnotation = ''1.2.3.4'' \<and>
   ''1.2.3.4'' \<noteq> [] \<and> ''1.2.3.4'' \<noteq> IP4_String dotted_lib (PublicIP attrs1) \<and>
   PodCIDR node1_overwrite \<noteq> [] \<and>
   MarshalJSON dotted_lib (BackendData attrs1) = Inr ''{\"VNI\":1}'' \<and>
   ParseCIDR dotted_lib (PodCIDR node1_overwrite) = Inr subnet1 \<and>
   length (fst (AcquireLease dotted_lib (ksm_of node1_overwrite []) 1000 attrs1)) = 1 \<and>
   hd (fst (AcquireLease dotted_lib (ksm_of node1_overwrite []) 1000 attrs1))
     \<in> set (fst (AcquireLease dotted_lib (ksm_of node1_overwrite []) 1000 attrs1)) \<and>
   index (Annotations (apply_patch
            (pc_data (hd (fst (AcquireLease dotted_lib (ksm_of node1_overwrite []) 1000
                                 attrs1))))
            node1_overwrite)) backendPublicIPAnnotation = ''1.2.3.4'' \<and>
   p_Annotations
       (pc_data (hd (fst (AcquireLease dotted_lib (ksm_of node1_overwrite []) 1000 attrs1))))
       backendPublicIPAnnotation
     = Some (Some ''1.2.3.4'')"
proof -
  let ?calls = "fst (AcquireLease dotted_lib (ksm_of node1_overwrite []) 1000 attrs1)"
  have pre: "PodCIDR node1_overwrite \<noteq> [] \<and>
      (\<exists>bd. MarshalJSON dotted_lib (BackendData attrs1) = Inr bd) \<and>
      (\<exists>cidr. ParseCIDR dotted_lib (PodCIDR node1_overwrite) = Inr cidr)"
    using PodCIDR_assigned(2) MarshalJSON_attrs1 ParseCIDR_examples(2) by blast
  have ne: "''1.2.3.4'' \<noteq> []" by simp
  note t = AcquireLease_override_precedence
    [where now = 1000,
     OF ksm_of_nodeStore [of node1_overwrite "[]"] index_node1_overwrite(1) ne
       overwrite_is_not_attrs1]
  from t pre have len: "length ?calls = 1" by blast
  then have c: "hd ?calls \<in> set ?calls"
    by (cases ?calls) simp_all
  from t c have "index (Annotations (apply_patch (pc_data (hd ?calls)) node1_overwrite))
        backendPublicIPAnnotation = ''1.2.3.4'' \<and>
      p_Annotations (pc_data (hd ?calls)) backendPublicIPAnnotation
        = (if index (Annotations node1_overwrite) backendPublicIPAnnotation = ''1.2.3.4''
           then None else Some (Some ''1.2.3.4''))"
    by blast
  then have w: "index (Annotations (apply_patch (pc_data (hd ?calls)) node1_overwrite))
        backendPublicIPAnnotation = ''1.2.3.4'' \<and>
      p_Annotations (pc_data (hd ?calls)) backendPublicIPAnnotation = Some (Some ''1.2.3.4'')"
    by (simp add: index_node1_overwrite(2))
  show ?thesis
    using t w len c ne ksm_of_nodeStore [of node1_overwrite "[]"] index_node1_overwrite(1)
      overwrite_is_not_attrs1 PodCIDR_assigned(2) MarshalJSON_attrs1 ParseCIDR_examples(2)
    by blast
qed

theorem AcquireLease_lease_ip_differs_from_written_witness:
  "nodeStore (ksm_of node1_overwrite []) (nodeName (ksm_of node1_overwrite []))
     = Inr node1_overwrite \<and>
   index (Annotations node1_overwrite) backendPublicIPOverwriteAnnotation = ''1.2.3.4'' \<and>
   ''1.2.3.4'' \<noteq> [] \<and> ''1.2.3.4'' \<noteq> IP4_String dotted_lib (PublicIP attrs1) \<and>
   snd (AcquireLease dotted_lib (ksm_of node1_overwrite []) 1000 attrs1)
     = Returns (Inr \<lparr>Subnet = subnet1, Attrs = attrs1, Expiration = 1000 + 24 * Hour\<rparr>) \<and>
   length (fst (AcquireLease dotted_lib (ksm_of node1_overwrite []) 1000 attrs1)) = 1 \<and>
   PublicIP (Attrs \<lparr>Subnet = subnet1, Attrs = attrs1, Expiration = 1000 + 24 * Hour\<rparr>)
     = PublicIP attrs1 \<and>
   index (Annotations (apply_patch
            (pc_data (hd (fst (AcquireLease dotted_lib (ksm_of node1_overwrite []) 1000
                                 attrs1))))
            node1_overwrite)) backendPublicIPAnnotation = ''1.2.3.4'' \<and>
   IP4_String dotted_lib
       (PublicIP (Attrs \<lparr>Subnet = subnet1, Attrs = attrs1, Expiration = 1000 + 24 * Hour\<rparr>))
     \<noteq> index (Annotations (apply_patch
            (pc_data (hd (fst (AcquireLease dotted_lib (ksm_of node1_overwrite []) 1000
                                 attrs1))))
            node1_overwrite)) backendPublicIPAnnotation"
proof -
  let ?calls = "fst (AcquireLease dotted_lib (ksm_of node1_overwrite []) 1000 attrs1)"
  let ?l = "\<lparr>Subnet = subnet1, Attrs = attrs1, Expiration = 1000 + 24 * Hour\<rparr>"
  have ne: "''1.2.3.4'' \<noteq> []" by simp
  have res: "snd (AcquireLease dotted_lib (ksm_of node1_overwrite []) 1000 attrs1)
      = Returns (Inr ?l)"
    using AcquireLease_overwrite_entry
      [where q = "[]" and now = 1000,
       OF index_node1_overwrite(1) PodCIDR_assigned(2) ParseCIDR_examples(2)]
    by simp
  then have run: "AcquireLease dotted_lib (ksm_of node1_overwrite []) 1000 attrs1
      = (?calls, Returns (Inr ?l))"
    by (simp add: prod_eq_iff)
  note t = AcquireLease_lease_ip_differs_from_written
    [OF ksm_of_nodeStore [of node1_overwrite "[]"] index_node1_overwrite(1) ne
       overwrite_is_not_attrs1 run]
  from t obtain c where c: "?calls = [c]"
    and w: "PublicIP (Attrs ?l) = PublicIP attrs1"
      "index (Annotations (apply_patch (pc_data c) node1_overwrite)) backendPublicIPAnnotation
         = ''1.2.3.4''"
      "IP4_String dotted_lib (PublicIP (Attrs ?l))
         \<noteq> index (Annotations (apply_patch (pc_data c) node1_overwrite))
              backendPublicIPAnnotation"
    by blast
  from c have hd: "hd ?calls = c" and len: "length ?calls = 1" by simp_all
  show ?thesis
    using t w [folded hd] len res ne ksm_of_nodeStore [of node1_overwrite "[]"]
      index_node1_overwrite(1) overwrite_is_not_attrs1
    by blast
qed

theorem AcquireLease_patch_frame_witness:
  "nodeStore (ksm_of node1_overwrite []) (nodeName (ksm_of node1_overwrite []))
     = Inr node1_overwrite \<and>
   hd (fst (AcquireLease dotted_lib (ksm_of node1_overwrite []) 1000 attrs1))
     \<in> set (fst (AcquireLease dotted_lib (ksm_of node1_overwrite []) 1000 attrs1)) \<and>
   dom (p_Annotations (pc_data
          (hd (fst (AcquireLease dotted_lib (ksm_of node1_overwrite []) 1000 attrs1)))))
     \<subseteq> {backendTypeAnnotation, backendDataAnnotation, backendPublicIPAnnotation,
         subnetKubeManagedAnnotation} \<and>
   p_Annotations (pc_data
       (hd (fst (AcquireLease dotted_lib (ksm_of node1_overwrite []) 1000 attrs1))))
     backendPublicIPOverwriteAnnotation = None \<and>
   p_Name (pc_data
       (hd (fst (AcquireLease dotted_lib (ksm_of node1_overwrite []) 1000 attrs1)))) = None \<and>
   p_PodCIDR (pc_data
       (hd (fst (AcquireLease dotted_lib (ksm_of node1_overwrite []) 1000 attrs1)))) = None \<and>
   p_Rest (pc_data
       (hd (fst (AcquireLease dotted_lib (ksm_of node1_overwrite []) 1000 attrs1)))) = None \<and>
   pc_name (hd (fst (AcquireLease dotted_lib (ksm_of node1_overwrite []) 1000 attrs1)))
     = ''node-1''"
proof -
  let ?calls = "fst (AcquireLease dotted_lib (ksm_of node1_overwrite []) 1000 attrs1)"
  have "length ?calls = 1"
    using AcquireLease_overwrite_entry
      [where q = "[]" and now = 1000,
       OF index_node1_overwrite(1) PodCIDR_assigned(2) ParseCIDR_examples(2)]
    by simp
  then have c: "hd ?calls \<in> set ?calls"
    by (cases ?calls) simp_all
  show ?thesis
    using c ksm_of_nodeStore [of node1_overwrite "[]"]
      AcquireLease_patch_frame [OF ksm_of_nodeStore [of node1_overwrite "[]"] c]
    by (simp add: ksm_of_fields)
qed

text \<open>
  Witness of claim C1: \<open>node1\<close> holds what \<open>attrs1\<close> asks for, and a call issues no patch;
  \<open>node1_bare\<close> holds no lease metadata, the first call issues one patch, and the second
  call, on the cache as the patch left it, none.
\<close>

lemma index_node1_rest:
  "index (Annotations node1) subnetKubeManagedAnnotation = ''true''"
  "index (Annotations node1) backendPublicIPOverwriteAnnotation = []"
  "index (Annotations node1_bare) subnetKubeManagedAnnotation = []"
  "index (Annotations node1_bare) backendPublicIPOverwriteAnnotation = []"
  by (simp_all add: node1_def node1_bare_def node_with_fields index_annots1 index_Some_upd
      index_Some_empty ttl_key_neq)

lemma node1_bare_differs: "annotations_differ dotted_lib node1_bare attrs1 bd"
  by (simp add: annotations_differ_def index_node1_rest)

theorem AcquireLease_zero_writes_when_settled_witness:
  "(nodeStore (ksm_of node1 []) (nodeName (ksm_of node1 [])) = Inr node1 \<and>
    index (Annotations node1) backendPublicIPOverwriteAnnotation = [] \<and>
    MarshalJSON dotted_lib (BackendData attrs1)
      = Inr (index (Annotations node1) backendDataAnnotation) \<and>
    index (Annotations node1) backendTypeAnnotation = BackendType attrs1 \<and>
    index (Annotations node1) backendPublicIPAnnotation
      = IP4_String dotted_lib (PublicIP attrs1) \<and>
    index (Annotations node1) subnetKubeManagedAnnotation = ''true'' \<and>
    fst (AcquireLease dotted_lib (ksm_of node1 []) 1000 attrs1) = []) \<and>
   (nodeStore (ksm_of node1_bare []) (nodeName (ksm_of node1_bare [])) = Inr node1_bare \<and>
    index (Annotations node1_bare) backendPublicIPOverwriteAnnotation = [] \<and>
    length (fst (AcquireLease dotted_lib (ksm_of node1_bare []) 1000 attrs1)) = 1 \<and>
    fst (AcquireLease dotted_lib
           (ksm_of (cache_after (fst (AcquireLease dotted_lib (ksm_of node1_bare []) 1000
                                        attrs1)) node1_bare) [])
           2000 attrs1) = [])"
proof -
  let ?after = "cache_after (fst (AcquireLease dotted_lib (ksm_of node1_bare []) 1000 attrs1))
                  node1_bare"
  have ov1: "index (Annotations node1) backendPublicIPOverwriteAnnotation = [] \<or>
      index (Annotations node1) backendPublicIPOverwriteAnnotation
        = IP4_String dotted_lib (PublicIP attrs1)"
    by (simp add: index_node1_rest)
  have ov2: "index (Annotations node1_bare) backendPublicIPOverwriteAnnotation = [] \<or>
      index (Annotations node1_bare) backendPublicIPOverwriteAnnotation
        = IP4_String dotted_lib (PublicIP attrs1)"
    by (simp add: index_node1_rest)
  have settled: "MarshalJSON dotted_lib (BackendData attrs1)
      = Inr (index (Annotations node1) backendDataAnnotation) \<and>
    index (Annotations node1) backendTypeAnnotation = BackendType attrs1 \<and>
    index (Annotations node1) backendPublicIPAnnotation
      = IP4_String dotted_lib (PublicIP attrs1) \<and>
    index (Annotations node1) subnetKubeManagedAnnotation = ''true''"
    by (simp add: MarshalJSON_attrs1 index_node1 index_node1_rest IP4_String_attrs1)
       (simp add: attrs1_def)
  have m: "Annotations node1_bare = Some [''node.alpha.kubernetes.io/ttl'' \<mapsto> ''0'']"
    by (simp add: node1_bare_def node_with_fields)
  have first: "length (fst (AcquireLease dotted_lib (ksm_of node1_bare []) 1000 attrs1)) = 1"
    using AcquireLease_one_call
      [where now = 1000,
       OF ksm_of_nodeStore [of node1_bare "[]"] PodCIDR_assigned(4) MarshalJSON_attrs1
         ParseCIDR_examples(4) node1_bare_differs m]
    by auto
  have second: "nodeName (ksm_of ?after []) = nodeName (ksm_of node1_bare []) \<and>
      nodeStore (ksm_of ?after []) (nodeName (ksm_of ?after [])) = Inr ?after"
    by (simp add: ksm_of_fields)
  note t1 = AcquireLease_zero_writes_when_settled
    [where now = 1000 and attrs = attrs1 and lib = dotted_lib
       and ksm' = "ksm_of ?after []" and now' = 2000,
     OF ksm_of_nodeStore [of node1 "[]"] ov1]
  note t2 = AcquireLease_zero_writes_when_settled
    [where now = 1000 and attrs = attrs1 and lib = dotted_lib
       and ksm' = "ksm_of ?after []" and now' = 2000,
     OF ksm_of_nodeStore [of node1_bare "[]"] ov2]
  have r1: "fst (AcquireLease dotted_lib (ksm_of node1 []) 1000 attrs1) = []"
    using t1 settled by blast
  have r2: "fst (AcquireLease dotted_lib (ksm_of ?after []) 2000 attrs1) = []"
    using t2 second by blast
  show ?thesis
    using t1 t2 r1 r2 settled first index_node1_rest(2,4) ksm_of_nodeStore [of node1 "[]"]
      ksm_of_nodeStore [of node1_bare "[]"]
    by blast
qed

text \<open>
  The claim as stated fails for an entry with an override that is not the attributes'
  public IP. \<open>node1_settled\<close> holds already what the assignments would write (they leave
  \<open>annots_settled\<close> as it is), and a call with \<open>attrs1\<close> issues a patch call all the same.
  And on \<open>node1_overwrite\<close> the first call issues a patch call, and so does the second
  call, with the same attributes, on the cache as the first patch left it.
\<close>

lemma cache_after_call:
  assumes "nodeStore ksm (nodeName ksm) = Inr cached"
    and "fst (AcquireLease lib ksm now attrs) \<noteq> []"
  shows "PodCIDR (cache_after (fst (AcquireLease lib ksm now attrs)) cached) = PodCIDR cached \<and>
         index (Annotations (cache_after (fst (AcquireLease lib ksm now attrs)) cached))
             backendPublicIPOverwriteAnnotation
           = index (Annotations cached) backendPublicIPOverwriteAnnotation"
proof -
  from assms(2) obtain c where c: "c \<in> set (fst (AcquireLease lib ksm now attrs))"
    by (cases "fst (AcquireLease lib ksm now attrs)") auto
  from patch_of_call [OF assms(1) c] obtain bd m where
    m: "Annotations cached = Some m"
    and ap: "apply_patch (pc_data c) cached
               = cached\<lparr>Annotations := Some (set_annotations lib attrs bd m)\<rparr>"
    and one: "fst (AcquireLease lib ksm now attrs) = [c]"
    by blast
  show ?thesis
    by (simp add: one cache_after_def ap m index_set_annotations_overwrite)
qed

lemma set_annotations_annots_settled:
  "set_annotations dotted_lib attrs1 ''{\"VNI\":1}'' annots_settled = annots_settled"
proof
  fix k
  have ov: "index (Some annots_settled) backendPublicIPOverwriteAnnotation = ''1.2.3.4''"
    and ip: "index (Some annots_settled) backendPublicIPAnnotation = ''1.2.3.4''"
    by (simp_all add: annots_settled_def index_Some_upd keys_neq)
  show "set_annotations dotted_lib attrs1 ''{\"VNI\":1}'' annots_settled k = annots_settled k"
    by (simp add: set_annotations_apply ov ip)
       (simp add: annots_settled_def annots1_def keys_neq attrs1_def)
qed

theorem AcquireLease_idempotence_counterexample:
  "Annotations node1_settled = Some annots_settled \<and>
   MarshalJSON dotted_lib (BackendData attrs1) = Inr ''{\"VNI\":1}'' \<and>
   set_annotations dotted_lib attrs1 ''{\"VNI\":1}'' annots_settled = annots_settled \<and>
   length (fst (AcquireLease dotted_lib (ksm_of node1_settled []) 1000 attrs1)) = 1 \<and>
   length (fst (AcquireLease dotted_lib (ksm_of node1_overwrite []) 1000 attrs1)) = 1 \<and>
   length (fst (AcquireLease dotted_lib
                  (ksm_of (cache_after (fst (AcquireLease dotted_lib
                                               (ksm_of node1_overwrite []) 1000 attrs1))
                             node1_overwrite) [])
                  2000 attrs1)) = 1"
proof -
  let ?calls = "fst (AcquireLease dotted_lib (ksm_of node1_overwrite []) 1000 attrs1)"
  have a: "Annotations node1_settled = Some annots_settled"
    by (simp add: node1_settled_def node_with_fields)
  have settled: "length (fst (AcquireLease dotted_lib (ksm_of node1_settled []) 1000 attrs1)) = 1"
    using AcquireLease_overwrite_entry
      [where q = "[]" and now = 1000,
       OF index_node1_settled PodCIDR_assigned(3) ParseCIDR_examples(3)]
    by simp
  have first: "length ?calls = 1"
    using AcquireLease_overwrite_entry
      [where q = "[]" and now = 1000,
       OF index_node1_overwrite(1) PodCIDR_assigned(2) ParseCIDR_examples(2)]
    by simp
  then have "?calls \<noteq> []" by auto
  from cache_after_call [OF ksm_of_nodeStore [of node1_overwrite "[]"] this]
  have after: "PodCIDR (cache_after ?calls node1_overwrite) = PodCIDR node1_overwrite"
    "index (Annotations (cache_after ?calls node1_overwrite))
        backendPublicIPOverwriteAnnotation = ''1.2.3.4''"
    by (simp_all add: index_node1_overwrite)
  have second: "length (fst (AcquireLease dotted_lib
      (ksm_of (cache_after ?calls node1_overwrite) []) 2000 attrs1)) = 1"
    using AcquireLease_overwrite_entry
      [where q = "[]" and now = 2000 and n = "cache_after ?calls node1_overwrite",
       OF after(2)]
      PodCIDR_assigned(2) ParseCIDR_examples(2)
    by (simp add: after(1))
  show ?thesis
    using a MarshalJSON_attrs1 set_annotations_annots_settled settled first second
    by blast
qed

end
